theory Spec2Isabelle
  imports Complex_Main "HOL-Library.Word"
begin

section \<open>Scalars and Cartesian vectors\<close>

text \<open>
  The scalar type \<open>SCALAR\<close> and the \<open>double\<close> values of the sources are read as exact
  reals: every operation below is the real-number function that the floating-point
  operation approximates, so a property that the sources can only have within a tolerance
  is stated here as an equation. Two things that a real number does not carry are written
  out where the code depends on them: the sign of a zero that \<open>atan2\<close> reads, and the
  infinities and NaN that the constructor of the tile index can store as keys. Elsewhere,
  where the C++ would divide by zero, the real model has no value for the quotient: a
  theorem that depends on the value of a quotient assumes that the divisor is not zero.
\<close>

text \<open>
  Modelled from the spec: \<open>Vector.hpp\<close> (the types \<open>SCALAR\<close>, \<open>VectorCartesian\<close> and
  \<open>VectorSpherical\<close>) is not among the sources. The spec gives a Cartesian vector three
  scalar components with addition, subtraction, scalar scaling, dot product, cross product,
  Euclidean norm and division by the norm. \<open>Quaternion.hpp\<close> writes the dot product of two
  vectors \<open>a * b\<close> and the cross product \<open>a ^ b\<close> (its comment in \<open>OrthodromicDistance\<close>
  says so).
\<close>

record VectorCartesian =
  GetX :: real
  GetY :: real
  GetZ :: real

definition Vec :: "real \<Rightarrow> real \<Rightarrow> real \<Rightarrow> VectorCartesian" where
  "Vec a b c = \<lparr>GetX = a, GetY = b, GetZ = c\<rparr>"

definition VAdd :: "VectorCartesian \<Rightarrow> VectorCartesian \<Rightarrow> VectorCartesian" where
  "VAdd a b = Vec (GetX a + GetX b) (GetY a + GetY b) (GetZ a + GetZ b)"

definition VSub :: "VectorCartesian \<Rightarrow> VectorCartesian \<Rightarrow> VectorCartesian" where
  "VSub a b = Vec (GetX a - GetX b) (GetY a - GetY b) (GetZ a - GetZ b)"

definition VNeg :: "VectorCartesian \<Rightarrow> VectorCartesian" where
  "VNeg a = Vec (- GetX a) (- GetY a) (- GetZ a)"

definition VScale :: "real \<Rightarrow> VectorCartesian \<Rightarrow> VectorCartesian" where
  "VScale s a = Vec (s * GetX a) (s * GetY a) (s * GetZ a)"

definition VDiv :: "VectorCartesian \<Rightarrow> real \<Rightarrow> VectorCartesian" where
  "VDiv a s = Vec (GetX a / s) (GetY a / s) (GetZ a / s)"

definition VDot :: "VectorCartesian \<Rightarrow> VectorCartesian \<Rightarrow> real" where
  "VDot a b = GetX a * GetX b + GetY a * GetY b + GetZ a * GetZ b"

definition VCross :: "VectorCartesian \<Rightarrow> VectorCartesian \<Rightarrow> VectorCartesian" where
  "VCross a b = Vec (GetY a * GetZ b - GetZ a * GetY b)
                    (GetZ a * GetX b - GetX a * GetZ b)
                    (GetX a * GetY b - GetY a * GetX b)"

definition VNorm :: "VectorCartesian \<Rightarrow> real" where
  "VNorm a = sqrt (VDot a a)"

text \<open>
  Modelled from the spec: \<open>PI_L\<close> is a \<open>SCALAR\<close> holding the literal of pi; in exact
  arithmetic it is pi itself.
\<close>

definition PI_L :: real where
  "PI_L = pi"

text \<open>
  The C library functions used by the sources, on the reals. \<open>copysign a s\<close> has the
  magnitude of \<open>a\<close> and the sign of \<open>s\<close>; \<open>fmod a b\<close> is \<open>a - n * b\<close> with \<open>n\<close> the
  quotient \<open>a / b\<close> truncated towards zero, so it has the sign of \<open>a\<close>.

  \<open>atan2 y x\<close> is the angle of the point \<open>(x, y)\<close>. A double zero carries a sign that a
  real zero does not, and \<open>atan2\<close> reads it: on the negative x-axis it returns \<open>pi\<close> for
  \<open>y = +0.0\<close> and \<open>-pi\<close> for \<open>y = -0.0\<close>, and at the origin it returns \<open>\<plusminus>0\<close> for
  \<open>x = +0.0\<close> and \<open>\<plusminus>pi\<close> for \<open>x = -0.0\<close>, with the sign of \<open>y\<close>. The model takes the
  two sign bits as arguments \<open>ny\<close> and \<open>nx\<close>; they are consulted only where the value is
  zero.
\<close>

definition copysign :: "real \<Rightarrow> real \<Rightarrow> real" where
  "copysign a s = (if s < 0 then - \<bar>a\<bar> else \<bar>a\<bar>)"

definition atan2 :: "bool \<Rightarrow> bool \<Rightarrow> real \<Rightarrow> real \<Rightarrow> real" where
  "atan2 ny nx y x =
     (if 0 < x then arctan (y / x)
      else if x < 0 then
        (if 0 < y \<or> (y = 0 \<and> \<not> ny) then arctan (y / x) + pi else arctan (y / x) - pi)
      else if 0 < y then pi / 2
      else if y < 0 then - (pi / 2)
      else if nx then (if ny then - pi else pi)
      else 0)"

definition fmod :: "real \<Rightarrow> real \<Rightarrow> real" where
  "fmod a b = a - of_int (if 0 \<le> a / b then \<lfloor>a / b\<rfloor> else \<lceil>a / b\<rceil>) * b"

section \<open>Quaternion.hpp\<close>

record Quaternion =
  m_w :: real
  m_v :: VectorCartesian
  m_isNormalized :: bool

text \<open>The five constructors; each starts with the flag cleared.\<close>

definition Quaternion_void :: Quaternion where
  "Quaternion_void = \<lparr>m_w = 0, m_v = Vec 0 0 0, m_isNormalized = False\<rparr>"

definition Quaternion_wv :: "real \<Rightarrow> VectorCartesian \<Rightarrow> Quaternion" where
  "Quaternion_wv w v = \<lparr>m_w = w, m_v = v, m_isNormalized = False\<rparr>"

definition Quaternion_wxyz :: "real \<Rightarrow> real \<Rightarrow> real \<Rightarrow> real \<Rightarrow> Quaternion" where
  "Quaternion_wxyz w a b c = \<lparr>m_w = w, m_v = Vec a b c, m_isNormalized = False\<rparr>"

definition Quaternion_w :: "real \<Rightarrow> Quaternion" where
  "Quaternion_w w = \<lparr>m_w = w, m_v = Vec 0 0 0, m_isNormalized = False\<rparr>"

definition Quaternion_v :: "VectorCartesian \<Rightarrow> Quaternion" where
  "Quaternion_v v = \<lparr>m_w = 0, m_v = v, m_isNormalized = False\<rparr>"

definition DotProduct :: "Quaternion \<Rightarrow> Quaternion \<Rightarrow> real" where
  "DotProduct p q = m_w p * m_w q + VDot (m_v p) (m_v q)"

definition Norm :: "Quaternion \<Rightarrow> real" where
  "Norm q = sqrt (DotProduct q q)"

definition QAdd :: "Quaternion \<Rightarrow> Quaternion \<Rightarrow> Quaternion" where
  "QAdd p q = Quaternion_wv (m_w p + m_w q) (VAdd (m_v p) (m_v q))"

definition QAddV :: "Quaternion \<Rightarrow> VectorCartesian \<Rightarrow> Quaternion" where
  "QAddV p v = QAdd p (Quaternion_v v)"

definition QSub :: "Quaternion \<Rightarrow> Quaternion \<Rightarrow> Quaternion" where
  "QSub p q = Quaternion_wv (m_w p - m_w q) (VSub (m_v p) (m_v q))"

definition QNeg :: "Quaternion \<Rightarrow> Quaternion" where
  "QNeg p = Quaternion_wv (- m_w p) (VNeg (m_v p))"

definition QSubV :: "Quaternion \<Rightarrow> VectorCartesian \<Rightarrow> Quaternion" where
  "QSubV p v = QSub p (Quaternion_v v)"

definition QMul :: "Quaternion \<Rightarrow> Quaternion \<Rightarrow> Quaternion" where
  "QMul p q =
     Quaternion_wv (m_w p * m_w q - VDot (m_v p) (m_v q))
       (VAdd (VAdd (VScale (m_w p) (m_v q)) (VScale (m_w q) (m_v p)))
             (VCross (m_v p) (m_v q)))"

definition QMulV :: "Quaternion \<Rightarrow> VectorCartesian \<Rightarrow> Quaternion" where
  "QMulV p v = QMul p (Quaternion_v v)"

definition QScale :: "Quaternion \<Rightarrow> real \<Rightarrow> Quaternion" where
  "QScale p s = Quaternion_wv (m_w p * s) (VScale s (m_v p))"

definition QDiv :: "Quaternion \<Rightarrow> real \<Rightarrow> Quaternion" where
  "QDiv p s = Quaternion_wv (m_w p / s) (VDiv (m_v p) s)"

text \<open>\<open>operator==\<close> compares \<open>m_w\<close> and \<open>m_v\<close> and ignores the flag.\<close>

definition QEq :: "Quaternion \<Rightarrow> Quaternion \<Rightarrow> bool" where
  "QEq p q \<longleftrightarrow> m_w p = m_w q \<and> m_v p = m_v q"

text \<open>\<open>Normalize\<close> mutates the object; the model returns the object after the call.\<close>

definition Normalize :: "Quaternion \<Rightarrow> Quaternion" where
  "Normalize q =
     (if \<not> m_isNormalized q then (QDiv q (Norm q))\<lparr>m_isNormalized := True\<rparr> else q)"

definition Normalized :: "Quaternion \<Rightarrow> Quaternion" where
  "Normalized q = (if \<not> m_isNormalized q then QDiv q (Norm q) else q)"

definition FromEuler :: "real \<Rightarrow> real \<Rightarrow> real \<Rightarrow> Quaternion" where
  "FromEuler yaw pitch roll =
     (let t0 = cos (yaw * 0.5);
          t1 = sin (yaw * 0.5);
          t2 = cos (roll * 0.5);
          t3 = sin (roll * 0.5);
          t4 = cos (pitch * 0.5);
          t5 = sin (pitch * 0.5);
          q = Quaternion_wv (t0 * t2 * t4 + t1 * t3 * t5)
                (Vec (t0 * t3 * t4 - t1 * t2 * t5)
                     (t0 * t2 * t5 + t1 * t3 * t4)
                     (t1 * t2 * t4 - t0 * t3 * t5))
      in Normalize q)"

text \<open>
  In \<open>ToEuler\<close> the cosines \<open>cosr\<close> and \<open>cosy\<close> are differences \<open>1.0 - \<dots>\<close>, and a
  difference that is zero is \<open>+0.0\<close>. The sines \<open>sinr\<close> and \<open>siny\<close> are sums of products:
  where their exact value is zero, the double that the code holds is a zero of either sign,
  or a rounding residue of either sign. \<open>negr\<close> and \<open>negy\<close> say whether that double is
  negative; they matter only where the exact value is zero.
\<close>

definition ToEuler :: "bool \<Rightarrow> bool \<Rightarrow> Quaternion \<Rightarrow> VectorCartesian" where
  "ToEuler negr negy q =
     (let sinr = 2.0 * (m_w q * GetX (m_v q) + GetY (m_v q) * GetZ (m_v q));
          cosr = 1.0 - 2.0 * (GetX (m_v q) * GetX (m_v q) + GetY (m_v q) * GetY (m_v q));
          roll = atan2 negr False sinr cosr;
          sinp = 2.0 * (m_w q * GetY (m_v q) - GetZ (m_v q) * GetX (m_v q));
          pitch = (if \<bar>sinp\<bar> \<ge> 1 then copysign (PI_L / 2) sinp else arcsin sinp);
          siny = 2.0 * (m_w q * GetZ (m_v q) + GetX (m_v q) * GetY (m_v q));
          cosy = 1.0 - 2.0 * (GetY (m_v q) * GetY (m_v q) + GetZ (m_v q) * GetZ (m_v q));
          yaw = atan2 negy False siny cosy
      in Vec roll pitch yaw)"

definition IsPur :: "Quaternion \<Rightarrow> bool" where
  "IsPur q \<longleftrightarrow> m_w q = 0"

definition Conj :: "Quaternion \<Rightarrow> Quaternion" where
  "Conj q = Quaternion_wv (m_w q) (VNeg (m_v q))"

definition Inv :: "Quaternion \<Rightarrow> Quaternion" where
  "Inv q = (if m_isNormalized q then Conj q else QDiv (Conj q) ((Norm q)\<^sup>2))"

definition Rotation :: "Quaternion \<Rightarrow> VectorCartesian \<Rightarrow> VectorCartesian" where
  "Rotation q v =
     (if m_isNormalized q then m_v (QMul (QMulV q v) (Conj q))
      else m_v (QDiv (QMul (QMulV q v) (Conj q)) ((Norm q)\<^sup>2)))"

definition Exp :: "Quaternion \<Rightarrow> Quaternion" where
  "Exp q =
     Quaternion_wv (cos (VNorm (m_v q)) * exp (m_w q))
       (if VNorm (m_v q) \<noteq> 0
        then VScale (sin (VNorm (m_v q))) (VDiv (m_v q) (VNorm (m_v q)))
        else m_v q)"

definition Log :: "Quaternion \<Rightarrow> Quaternion" where
  "Log q =
     Quaternion_wv (ln (Norm q))
       (if VNorm (m_v q) \<noteq> 0 \<and> Norm q \<noteq> 0
        then VScale (arccos (m_w q / Norm q)) (VDiv (m_v q) (VNorm (m_v q)))
        else m_v q)"

definition Distance :: "Quaternion \<Rightarrow> Quaternion \<Rightarrow> real" where
  "Distance q1 q2 = Norm (QSub q2 q1)"

definition pow :: "Quaternion \<Rightarrow> real \<Rightarrow> Quaternion" where
  "pow q k = Exp (QScale (Log q) k)"

definition SLERP :: "Quaternion \<Rightarrow> Quaternion \<Rightarrow> real \<Rightarrow> Quaternion" where
  "SLERP q1 q2 k =
     (if DotProduct q1 q2 < 0 then QMul q1 (pow (QMul (Inv q1) (QNeg q2)) k)
      else QMul q1 (pow (QMul (Inv q1) q2) k))"

definition QuaternionFromAngleAxis :: "real \<Rightarrow> VectorCartesian \<Rightarrow> Quaternion" where
  "QuaternionFromAngleAxis theta u =
     Quaternion_wv (cos (theta / 2)) (VScale (sin (theta / 2)) (VDiv u (VNorm u)))"

text \<open>
  \<open>AverageAngularVelocity\<close> takes its two quaternions by value and overwrites the copies;
  the model names the successive values.
\<close>

definition reduceToDirection :: "Quaternion \<Rightarrow> Quaternion" where
  "reduceToDirection q =
     (if \<not> IsPur q
      then Quaternion_v (Rotation (if \<not> m_isNormalized q then Normalize q else q) (Vec 1 0 0))
      else q)"

definition AverageAngularVelocity :: "Quaternion \<Rightarrow> Quaternion \<Rightarrow> real \<Rightarrow> VectorCartesian" where
  "AverageAngularVelocity q1 q2 deltaT =
     (let q2a = (if DotProduct q1 q2 < 0 then QNeg q2 else q2);
          q1b = reduceToDirection q1;
          q2b = reduceToDirection q2a;
          deltaQ = QSub q2b q1b;
          W = QMul (QScale deltaQ (2.0 / deltaT)) (Inv q1b)
      in m_v W)"

text \<open>
  Names for two values that \<open>FromEuler\<close> and \<open>ToEuler\<close> compute on the way: the
  quaternion that \<open>FromEuler\<close> builds before it calls \<open>Normalize\<close>, and the local
  \<open>sinp\<close> of \<open>ToEuler\<close>.
\<close>

definition EulerRaw :: "real \<Rightarrow> real \<Rightarrow> real \<Rightarrow> Quaternion" where
  "EulerRaw yaw pitch roll =
     Quaternion_wv (cos (yaw * 0.5) * cos (roll * 0.5) * cos (pitch * 0.5)
                    + sin (yaw * 0.5) * sin (roll * 0.5) * sin (pitch * 0.5))
        (Vec (cos (yaw * 0.5) * sin (roll * 0.5) * cos (pitch * 0.5)
              - sin (yaw * 0.5) * cos (roll * 0.5) * sin (pitch * 0.5))
             (cos (yaw * 0.5) * cos (roll * 0.5) * sin (pitch * 0.5)
              + sin (yaw * 0.5) * sin (roll * 0.5) * cos (pitch * 0.5))
             (sin (yaw * 0.5) * cos (roll * 0.5) * cos (pitch * 0.5)
              - cos (yaw * 0.5) * sin (roll * 0.5) * sin (pitch * 0.5)))"

definition sinp_of :: "Quaternion \<Rightarrow> real" where
  "sinp_of q = 2.0 * (m_w q * GetY (m_v q) - GetZ (m_v q) * GetX (m_v q))"


text \<open>
  The quaternions that the public interface can produce: the constructors, \<open>FromEuler\<close>,
  and every operation applied to quaternions produced before. \<open>Normalize\<close> is called on a
  quaternion of non-zero norm only, which is its contract.
\<close>

inductive produced :: "Quaternion \<Rightarrow> bool" where
  p_void: "produced Quaternion_void"
| p_wv: "produced (Quaternion_wv w v)"
| p_wxyz: "produced (Quaternion_wxyz w a b c)"
| p_w: "produced (Quaternion_w w)"
| p_v: "produced (Quaternion_v v)"
| p_FromEuler: "produced (FromEuler yaw pitch roll)"
| p_QAdd: "produced p \<Longrightarrow> produced q \<Longrightarrow> produced (QAdd p q)"
| p_QAddV: "produced p \<Longrightarrow> produced (QAddV p v)"
| p_QSub: "produced p \<Longrightarrow> produced q \<Longrightarrow> produced (QSub p q)"
| p_QNeg: "produced p \<Longrightarrow> produced (QNeg p)"
| p_QSubV: "produced p \<Longrightarrow> produced (QSubV p v)"
| p_QMul: "produced p \<Longrightarrow> produced q \<Longrightarrow> produced (QMul p q)"
| p_QMulV: "produced p \<Longrightarrow> produced (QMulV p v)"
| p_QScale: "produced p \<Longrightarrow> produced (QScale p s)"
| p_QDiv: "produced p \<Longrightarrow> produced (QDiv p s)"
| p_Normalize: "produced q \<Longrightarrow> Norm q \<noteq> 0 \<Longrightarrow> produced (Normalize q)"
| p_Normalized: "produced q \<Longrightarrow> produced (Normalized q)"
| p_Conj: "produced q \<Longrightarrow> produced (Conj q)"
| p_Inv: "produced q \<Longrightarrow> produced (Inv q)"
| p_Exp: "produced q \<Longrightarrow> produced (Exp q)"
| p_Log: "produced q \<Longrightarrow> produced (Log q)"
| p_pow: "produced q \<Longrightarrow> produced (pow q k)"
| p_SLERP: "produced p \<Longrightarrow> produced q \<Longrightarrow> produced (SLERP p q k)"
| p_AngleAxis: "produced (QuaternionFromAngleAxis theta u)"

section \<open>AdaptionUnit.hpp\<close>

definition SAMPLERES :: nat where
  "SAMPLERES = 8"

definition SAMPLEPOINTS :: nat where
  "SAMPLEPOINTS = (SAMPLERES + 1) * (SAMPLERES + 1)"

text \<open>
  \<open>PI\<close> is declared \<open>float\<close>: it holds the single-precision number nearest to pi, which
  is \<open>13176795 / 2^22\<close>, and the \<open>double\<close> expressions that use it start from that value.
\<close>

definition PI :: real where
  "PI = 13176795 / 4194304"

definition monocular_horizontal :: real where
  "monocular_horizontal = 92.0"

definition monocular_vertical :: real where
  "monocular_vertical = 92.0"

definition maxHDist :: real where
  "maxHDist = 2 * tan (monocular_horizontal * PI / 180.0 / 2.0)"

definition maxVDist :: real where
  "maxVDist = 2 * tan (monocular_vertical * PI / 180.0 / 2.0)"

text \<open>The struct \<open>NormalizedCoordinate { double x, y; }\<close>.\<close>

record NormalizedCoordinate =
  coord_x :: real
  coord_y :: real

text \<open>
  Modelled from the spec: \<open>mpd.h\<close> is not among the sources. A tile descriptor has the
  rectangle \<open>(x, y, w, h)\<close> in pixels and the tiling multipliers \<open>(th, tv)\<close>; the tiles
  are indexed from 0 in declaration order. The fields are taken as \<open>int\<close>, the type of
  \<open>frameWidth\<close> and \<open>frameHeight\<close>: 32 bits, read as signed, with sums and products that
  wrap around.
\<close>

record SRD =
  srd_x :: "32 word"
  srd_y :: "32 word"
  srd_w :: "32 word"
  srd_h :: "32 word"
  srd_th :: "32 word"
  srd_tv :: "32 word"

text \<open>
  The keys of the index are the doubles that the constructor computes. A quotient by a
  frame dimension that is zero is an infinity, or a NaN when the dividend is zero as well,
  so a key is a real number, an infinity or NaN. The order is that of \<open>operator<\<close> on
  doubles: every comparison with NaN is false.
\<close>

datatype boundary = NegInf | Finite real | PosInf | NaN

instantiation boundary :: ord
begin

fun less_boundary :: "boundary \<Rightarrow> boundary \<Rightarrow> bool" where
  "less_boundary (Finite a) (Finite b) = (a < b)"
| "less_boundary NegInf (Finite b) = True"
| "less_boundary NegInf PosInf = True"
| "less_boundary (Finite a) PosInf = True"
| "less_boundary a b = False"

definition less_eq_boundary :: "boundary \<Rightarrow> boundary \<Rightarrow> bool" where
  "less_eq_boundary a b \<longleftrightarrow> a < b \<or> (a = b \<and> a \<noteq> NaN)"

instance ..

end

text \<open>
  The quotient \<open>n / (double) d\<close> of two \<open>int\<close> values, the dividend already converted by
  the usual arithmetic conversions.
\<close>

definition intQuotient :: "32 word \<Rightarrow> 32 word \<Rightarrow> boundary" where
  "intQuotient n d =
     (if sint d \<noteq> 0 then Finite (real_of_int (sint n) / real_of_int (sint d))
      else if 0 < sint n then PosInf
      else if sint n < 0 then NegInf
      else NaN)"

text \<open>
  A \<open>std::map\<close> is the list of its entries in increasing key order. The map compares keys
  with \<open><\<close> only, and two keys neither of which is less than the other are the same key.
  \<open>map_modify k d f\<close> is \<open>m[k] = f (m[k])\<close>, where \<open>operator[]\<close> first inserts the
  default value \<open>d\<close> when the key is absent; \<open>lower_bound m k\<close> is the value of the first
  entry whose key is not less than \<open>k\<close>, and \<open>None\<close> when the iterator is \<open>end()\<close>.
\<close>

type_synonym ('k, 'v) cmap = "('k \<times> 'v) list"

fun map_modify :: "'k::ord \<Rightarrow> 'v \<Rightarrow> ('v \<Rightarrow> 'v) \<Rightarrow> ('k, 'v) cmap \<Rightarrow> ('k, 'v) cmap" where
  "map_modify k d f [] = [(k, f d)]"
| "map_modify k d f ((k', v) # m) =
     (if k < k' then (k, f d) # (k', v) # m
      else if k' < k then (k', v) # map_modify k d f m
      else (k', f v) # m)"

fun lower_bound :: "('k::ord, 'v) cmap \<Rightarrow> 'k \<Rightarrow> 'v option" where
  "lower_bound [] k = None"
| "lower_bound ((k', v) # m) k = (if k' < k then lower_bound m k else Some v)"

text \<open>
  What the C++ leaves undefined is an error of the model: the first element of an empty
  layout, and the dereference of \<open>end()\<close> when no boundary is at or above a coordinate.
\<close>

datatype error = EmptyLayout | NoBoundary

record AdaptionUnit =
  normalizedCoordTileMapping :: "(boundary, (boundary, int) cmap) cmap"
  samplePoints :: "NormalizedCoordinate list"

text \<open>The first loop of the constructor, from tile \<open>i\<close> on; \<open>i\<close> is an \<open>int\<close>.\<close>

fun insertTiles ::
  "32 word \<Rightarrow> 32 word \<Rightarrow> 32 word \<Rightarrow> SRD list \<Rightarrow> (boundary, (boundary, int) cmap) cmap
     \<Rightarrow> (boundary, (boundary, int) cmap) cmap" where
  "insertTiles frameWidth frameHeight i [] m = m"
| "insertTiles frameWidth frameHeight i (srd # rest) m =
     (let normalizedCoordX = intQuotient (srd_x srd + srd_w srd) frameWidth;
          normalizedCoordY = intQuotient (srd_y srd + srd_h srd) frameHeight
      in insertTiles frameWidth frameHeight (i + 1) rest
           (map_modify normalizedCoordX [] (map_modify normalizedCoordY 0 (\<lambda>_. sint i)) m))"

definition initSamplePoints :: "NormalizedCoordinate list" where
  "initSamplePoints =
     concat (map (\<lambda>i. map (\<lambda>j. \<lparr>coord_x = real i * (1.0 / real SAMPLERES),
                                 coord_y = real j * (1.0 / real SAMPLERES)\<rparr>)
                           [0..<SAMPLERES + 1])
                 [0..<SAMPLERES + 1])"

definition AdaptionUnit_ctor :: "SRD list \<Rightarrow> error + AdaptionUnit" where
  "AdaptionUnit_ctor adaptationSets =
     (case adaptationSets of
        [] \<Rightarrow> Inl EmptyLayout
      | srd # _ \<Rightarrow>
          (let frameWidth = srd_w srd * srd_th srd;
               frameHeight = srd_h srd * srd_tv srd
           in Inr \<lparr>normalizedCoordTileMapping =
                      insertTiles frameWidth frameHeight 0 adaptationSets [],
                    samplePoints = initSamplePoints\<rparr>))"

text \<open>The query coordinate is a finite double.\<close>

definition mapCoordToTile :: "AdaptionUnit \<Rightarrow> NormalizedCoordinate \<Rightarrow> error + int" where
  "mapCoordToTile au coord =
     (case lower_bound (normalizedCoordTileMapping au) (Finite (coord_x coord)) of
        None \<Rightarrow> Inl NoBoundary
      | Some column \<Rightarrow>
          (case lower_bound column (Finite (coord_y coord)) of
             None \<Rightarrow> Inl NoBoundary
           | Some tile \<Rightarrow> Inr tile))"

text \<open>
  The first half of \<open>fromViewportCoordToEquirectCoord\<close>: the viewing ray before the
  rotation, \<open>coordBefRot\<close> after the division by its norm.
\<close>

definition coordBefRot :: "NormalizedCoordinate \<Rightarrow> VectorCartesian" where
  "coordBefRot viewportCoord =
     (let u = (coord_x viewportCoord - 0.5) * (2 * maxHDist);
          v = (0.5 - coord_y viewportCoord) * (2 * maxVDist);
          c = Vec 1 u v
      in VDiv c (VNorm c))"

text \<open>
  The conversion of a Cartesian vector to \<open>VectorSpherical\<close> and its accessors
  \<open>GetTheta\<close> and \<open>GetPhi\<close> are in the absent \<open>Vector.hpp\<close>, and the spec does not give
  their formulas: they are parameters of the model, two functions of the rotated vector.
\<close>

definition fromViewportCoordToEquirectCoord ::
  "(VectorCartesian \<Rightarrow> real) \<Rightarrow> (VectorCartesian \<Rightarrow> real) \<Rightarrow> Quaternion
     \<Rightarrow> NormalizedCoordinate \<Rightarrow> NormalizedCoordinate" where
  "fromViewportCoordToEquirectCoord GetTheta GetPhi headRotation viewportCoord =
     (let pixel3dPolar = Rotation headRotation (coordBefRot viewportCoord)
      in \<lparr>coord_x = 1.0 - fmod (0.75 + GetTheta pixel3dPolar / (2.0 * PI)) 1.0,
          coord_y = GetPhi pixel3dPolar / PI\<rparr>)"

fun tileVisibilityLoop ::
  "(VectorCartesian \<Rightarrow> real) \<Rightarrow> (VectorCartesian \<Rightarrow> real) \<Rightarrow> AdaptionUnit \<Rightarrow> Quaternion
     \<Rightarrow> nat list \<Rightarrow> (int, int) cmap \<Rightarrow> error + (int, int) cmap" where
  "tileVisibilityLoop GetTheta GetPhi au headRotation [] tileVisibilityMap =
     Inr tileVisibilityMap"
| "tileVisibilityLoop GetTheta GetPhi au headRotation (j # js) tileVisibilityMap =
     (case mapCoordToTile au
             (fromViewportCoordToEquirectCoord GetTheta GetPhi headRotation
                (samplePoints au ! j)) of
        Inl e \<Rightarrow> Inl e
      | Inr tile \<Rightarrow>
          tileVisibilityLoop GetTheta GetPhi au headRotation js
            (map_modify tile 0 (\<lambda>c. c + 1) tileVisibilityMap))"

definition computeTileVisibility ::
  "(VectorCartesian \<Rightarrow> real) \<Rightarrow> (VectorCartesian \<Rightarrow> real) \<Rightarrow> AdaptionUnit \<Rightarrow> Quaternion
     \<Rightarrow> error + (int, int) cmap" where
  "computeTileVisibility GetTheta GetPhi au headRotation =
     tileVisibilityLoop GetTheta GetPhi au headRotation [0..<SAMPLEPOINTS] []"

text \<open>
  The recorded boundaries reach 1.0 in both axes: some recorded X boundary is at least 1,
  and some recorded Y boundary is at least 1.
\<close>

definition boundariesReachOne :: "AdaptionUnit \<Rightarrow> bool" where
  "boundariesReachOne au \<longleftrightarrow>
     list_ex (\<lambda>e. Finite 1 \<le> fst e) (normalizedCoordTileMapping au) \<and>
     list_ex (\<lambda>e. list_ex (\<lambda>b. Finite 1 \<le> fst b) (snd e)) (normalizedCoordTileMapping au)"

text \<open>
  The stronger condition that the chained lookup needs: some X boundary is at least 1 and,
  in every column, some Y boundary is at least 1. A grid layout that reaches 1.0 in both
  axes has it.
\<close>

definition columnsReachOne :: "AdaptionUnit \<Rightarrow> bool" where
  "columnsReachOne au \<longleftrightarrow>
     list_ex (\<lambda>e. Finite 1 \<le> fst e) (normalizedCoordTileMapping au) \<and>
     list_all (\<lambda>e. list_ex (\<lambda>b. Finite 1 \<le> fst b) (snd e)) (normalizedCoordTileMapping au)"

text \<open>
  The unit vector along \<open>(1, u, v)\<close>, where \<open>u\<close> and \<open>v\<close> are the offsets
  \<open>x - 0.5\<close> and \<open>0.5 - y\<close> from the centre of the viewport scaled by a factor \<open>f\<close>.
  The spec words the viewing ray so, with the factor \<open>2 * tan (fov / 2)\<close>.
\<close>

definition scaledRay :: "real \<Rightarrow> real \<Rightarrow> real \<Rightarrow> VectorCartesian" where
  "scaledRay f x y =
     (let c = Vec 1 ((x - 0.5) * f) ((0.5 - y) * f)
      in VDiv c (VNorm c))"

section \<open>Inverse and conjugate\<close>

lemma Norm_sq: "(Norm q)\<^sup>2 = DotProduct q q"
  by (simp add: Norm_def DotProduct_def VDot_def sum_nonneg)

lemma Vec_eta: "Vec (GetX v) (GetY v) (GetZ v) = v"
  by (simp add: Vec_def)

lemma Vec_sel: "GetX (Vec a b c) = a" "GetY (Vec a b c) = b" "GetZ (Vec a b c) = c"
  by (simp_all add: Vec_def)

lemma Vec_eq_iff:
  "(a = b) = (GetX a = GetX b \<and> GetY a = GetY b \<and> GetZ a = GetZ b)"
  for a b :: VectorCartesian
  by (auto intro: VectorCartesian.equality)

lemma QDiv_one: "QDiv p 1 = Quaternion_wv (m_w p) (m_v p)"
  by (simp add: QDiv_def VDiv_def Vec_eta)

text \<open>
  C4. A quaternion of norm 1 has the conjugate \<open>(w, -v)\<close> as its inverse whether or not its
  flag is set, since dividing the conjugate by the squared norm 1 changes nothing; and a
  quaternion of non-zero norm whose flag is clear has the conjugate divided by the squared
  norm, that is by \<open>w\<^sup>2 + |v|\<^sup>2\<close>, as its inverse.
\<close>

theorem Inv_unit_or_scaled:
  "(Norm q = 1 \<longrightarrow>
      Inv q = Conj q \<and> m_w (Inv q) = m_w q \<and> m_v (Inv q) = VNeg (m_v q)) \<and>
   (Norm q \<noteq> 0 \<and> \<not> m_isNormalized q \<longrightarrow>
      Inv q = QDiv (Conj q) ((Norm q)\<^sup>2) \<and>
      m_w (Inv q) = m_w q / DotProduct q q \<and>
      m_v (Inv q) = VDiv (VNeg (m_v q)) (DotProduct q q))"
proof (intro conjI impI)
  assume u: "Norm q = 1"
  have c: "QDiv (Conj q) 1 = Conj q"
    by (simp add: QDiv_one Conj_def Quaternion_wv_def)
  show i: "Inv q = Conj q"
    using u c by (simp add: Inv_def)
  show "m_w (Inv q) = m_w q"
    by (simp add: i Conj_def Quaternion_wv_def)
  show "m_v (Inv q) = VNeg (m_v q)"
    by (simp add: i Conj_def Quaternion_wv_def)
next
  assume n: "Norm q \<noteq> 0 \<and> \<not> m_isNormalized q"
  show "Inv q = QDiv (Conj q) ((Norm q)\<^sup>2)"
    using n by (simp add: Inv_def)
  show "m_w (Inv q) = m_w q / DotProduct q q"
    using n by (simp add: Inv_def Norm_sq QDiv_def Conj_def Quaternion_wv_def)
  show "m_v (Inv q) = VDiv (VNeg (m_v q)) (DotProduct q q)"
    using n by (simp add: Inv_def Norm_sq QDiv_def Conj_def Quaternion_wv_def)
qed

theorem Inv_unit_or_scaled_witness:
  "Inv (Quaternion_wxyz 1 0 0 0) = Conj (Quaternion_wxyz 1 0 0 0) \<and>
   Inv ((Quaternion_wxyz 1 0 0 0)\<lparr>m_isNormalized := True\<rparr>)
     = Conj ((Quaternion_wxyz 1 0 0 0)\<lparr>m_isNormalized := True\<rparr>) \<and>
   m_w (Inv (Quaternion_wxyz 2 0 0 0)) = 1 / 2"
proof -
  have n1: "Norm (Quaternion_wxyz 1 0 0 0) = 1"
    by (simp add: Norm_def DotProduct_def VDot_def Quaternion_wxyz_def Vec_def)
  have n1': "Norm ((Quaternion_wxyz 1 0 0 0)\<lparr>m_isNormalized := True\<rparr>) = 1"
    by (simp add: Norm_def DotProduct_def VDot_def Quaternion_wxyz_def Vec_def)
  have d2: "DotProduct (Quaternion_wxyz 2 0 0 0) (Quaternion_wxyz 2 0 0 0) = 4"
    by (simp add: DotProduct_def VDot_def Quaternion_wxyz_def Vec_def)
  have n2: "Norm (Quaternion_wxyz 2 0 0 0) \<noteq> 0 \<and> \<not> m_isNormalized (Quaternion_wxyz 2 0 0 0)"
    by (simp add: Norm_def d2) (simp add: Quaternion_wxyz_def)
  have w2: "m_w (Quaternion_wxyz 2 0 0 0) = 2"
    by (simp add: Quaternion_wxyz_def)
  have a: "Inv (Quaternion_wxyz 1 0 0 0) = Conj (Quaternion_wxyz 1 0 0 0)"
    using Inv_unit_or_scaled [of "Quaternion_wxyz 1 0 0 0"] n1 by blast
  have b: "Inv ((Quaternion_wxyz 1 0 0 0)\<lparr>m_isNormalized := True\<rparr>)
     = Conj ((Quaternion_wxyz 1 0 0 0)\<lparr>m_isNormalized := True\<rparr>)"
    using Inv_unit_or_scaled [of "(Quaternion_wxyz 1 0 0 0)\<lparr>m_isNormalized := True\<rparr>"] n1'
    by blast
  have "m_w (Inv (Quaternion_wxyz 2 0 0 0))
      = m_w (Quaternion_wxyz 2 0 0 0)
        / DotProduct (Quaternion_wxyz 2 0 0 0) (Quaternion_wxyz 2 0 0 0)"
    using Inv_unit_or_scaled [of "Quaternion_wxyz 2 0 0 0"] n2 by blast
  then have c: "m_w (Inv (Quaternion_wxyz 2 0 0 0)) = 1 / 2"
    by (simp add: d2 w2)
  show ?thesis
    using a b c by simp
qed

section \<open>Norms\<close>

lemma DotProduct_nonneg: "0 \<le> DotProduct q q"
  by (simp add: DotProduct_def VDot_def)

lemma Norm_one_iff: "Norm q = 1 \<longleftrightarrow> DotProduct q q = 1"
  by (simp add: Norm_def)

lemma Norm_zero_iff: "Norm q = 0 \<longleftrightarrow> DotProduct q q = 0"
  by (simp add: Norm_def)

lemma flag_simps:
  "m_isNormalized (Quaternion_wv w v) = False"
  "m_isNormalized (Quaternion_v v) = False"
  "m_isNormalized (Quaternion_w w) = False"
  "m_isNormalized (Quaternion_wxyz w a b c) = False"
  "m_isNormalized Quaternion_void = False"
  by (simp_all add: Quaternion_wv_def Quaternion_v_def Quaternion_w_def Quaternion_wxyz_def
      Quaternion_void_def)

lemma sel_wv: "m_w (Quaternion_wv w v) = w" "m_v (Quaternion_wv w v) = v"
  by (simp_all add: Quaternion_wv_def)

lemma sel_v: "m_w (Quaternion_v v) = 0" "m_v (Quaternion_v v) = v"
  by (simp_all add: Quaternion_v_def)

lemma DotProduct_QDiv:
  "DotProduct (QDiv q s) (QDiv q s) = DotProduct q q / (s * s)"
  by (simp add: DotProduct_def QDiv_def VDiv_def VDot_def sel_wv Vec_sel add_divide_distrib)

lemma DotProduct_flag:
  "DotProduct (q\<lparr>m_isNormalized := b\<rparr>) (q\<lparr>m_isNormalized := b\<rparr>) = DotProduct q q"
  by (simp add: DotProduct_def)

lemma Norm_Normalize:
  assumes "\<not> m_isNormalized q" "Norm q \<noteq> 0"
  shows "Norm (Normalize q) = 1"
proof -
  have nz: "DotProduct q q \<noteq> 0" using assms(2) by (simp add: Norm_zero_iff)
  have "Norm q * Norm q = DotProduct q q"
    using Norm_sq [of q] by (simp add: power2_eq_square)
  then have "DotProduct (QDiv q (Norm q)) (QDiv q (Norm q)) = 1"
    using nz by (simp add: DotProduct_QDiv)
  then show ?thesis using assms(1) by (simp add: Normalize_def Norm_one_iff DotProduct_flag)
qed

lemma Euler_sum_squares:
  fixes c0 s0 c1 s1 c2 s2 :: real
  assumes "c0 * c0 + s0 * s0 = 1" "c1 * c1 + s1 * s1 = 1" "c2 * c2 + s2 * s2 = 1"
  shows "(c0 * c1 * c2 + s0 * s1 * s2) * (c0 * c1 * c2 + s0 * s1 * s2)
       + ((c0 * s1 * c2 - s0 * c1 * s2) * (c0 * s1 * c2 - s0 * c1 * s2)
       + (c0 * c1 * s2 + s0 * s1 * c2) * (c0 * c1 * s2 + s0 * s1 * c2)
       + (s0 * c1 * c2 - c0 * s1 * s2) * (s0 * c1 * c2 - c0 * s1 * s2)) = 1"
proof -
  have "(c0 * c1 * c2 + s0 * s1 * s2) * (c0 * c1 * c2 + s0 * s1 * s2)
       + ((c0 * s1 * c2 - s0 * c1 * s2) * (c0 * s1 * c2 - s0 * c1 * s2)
       + (c0 * c1 * s2 + s0 * s1 * c2) * (c0 * c1 * s2 + s0 * s1 * c2)
       + (s0 * c1 * c2 - c0 * s1 * s2) * (s0 * c1 * c2 - c0 * s1 * s2))
     = (c0 * c0 + s0 * s0) * (c1 * c1 + s1 * s1) * (c2 * c2 + s2 * s2)"
    by algebra
  then show ?thesis by (simp add: assms)
qed

lemma FromEuler_raw: "FromEuler yaw pitch roll = Normalize (EulerRaw yaw pitch roll)"
  by (simp add: FromEuler_def EulerRaw_def Let_def)

lemma DotProduct_EulerRaw: "DotProduct (EulerRaw yaw pitch roll) (EulerRaw yaw pitch roll) = 1"
  unfolding DotProduct_def EulerRaw_def VDot_def sel_wv Vec_sel
  by (rule Euler_sum_squares) simp_all

lemma FromEuler_value:
  "FromEuler yaw pitch roll = (EulerRaw yaw pitch roll)\<lparr>m_isNormalized := True\<rparr>"
proof -
  have n: "Norm (EulerRaw yaw pitch roll) = 1"
    by (simp add: Norm_one_iff DotProduct_EulerRaw)
  have f: "\<not> m_isNormalized (EulerRaw yaw pitch roll)"
    by (simp add: EulerRaw_def flag_simps)
  show ?thesis
    using f by (simp add: FromEuler_raw Normalize_def n QDiv_one) (simp add: Quaternion_wv_def)
qed

lemma Norm_FromEuler: "Norm (FromEuler yaw pitch roll) = 1"
  by (simp add: FromEuler_value Norm_one_iff DotProduct_flag DotProduct_EulerRaw)

lemma op_flags:
  "\<not> m_isNormalized (QAdd p q)" "\<not> m_isNormalized (QAddV p v)"
  "\<not> m_isNormalized (QSub p q)" "\<not> m_isNormalized (QSubV p v)"
  "\<not> m_isNormalized (QNeg p)" "\<not> m_isNormalized (QMul p q)"
  "\<not> m_isNormalized (QMulV p v)" "\<not> m_isNormalized (QScale p s)"
  "\<not> m_isNormalized (QDiv p s)" "\<not> m_isNormalized (Conj p)"
  "\<not> m_isNormalized (Exp p)" "\<not> m_isNormalized (Log p)"
  "\<not> m_isNormalized (pow p k)" "\<not> m_isNormalized (SLERP p q k)"
  "\<not> m_isNormalized (QuaternionFromAngleAxis theta u)"
  by (simp_all add: QAdd_def QAddV_def QSub_def QSubV_def QNeg_def QMul_def QMulV_def
      QScale_def QDiv_def Conj_def Exp_def Log_def pow_def SLERP_def
      QuaternionFromAngleAxis_def flag_simps)

lemma Inv_flag: "\<not> m_isNormalized (Inv q)"
  by (simp add: Inv_def op_flags)

section \<open>The cached flag\<close>

text \<open>
  C7. Every quaternion that the constructors and operations produce satisfies: if its flag
  \<open>m_isNormalized\<close> is set, its norm is 1. The constructors and the arithmetic operators
  return the flag cleared; only \<open>Normalize\<close>, on a quaternion of non-zero norm, and
  \<open>FromEuler\<close> set it, and both leave a value of norm 1. No operation changes \<open>m_w\<close>
  or \<open>m_v\<close> of a flagged value and keeps the flag.
\<close>

theorem flag_implies_unit:
  "produced q \<Longrightarrow> m_isNormalized q \<longrightarrow> Norm q = 1"
proof (induction rule: produced.induct)
  case (p_FromEuler yaw pitch roll)
  show ?case by (simp add: Norm_FromEuler)
next
  case (p_Normalize q)
  show ?case
  proof (cases "m_isNormalized q")
    case True
    then show ?thesis using p_Normalize.IH by (simp add: Normalize_def)
  next
    case False
    then show ?thesis using p_Normalize.hyps(2) by (simp add: Norm_Normalize)
  qed
next
  case (p_Normalized q)
  then show ?case by (simp add: Normalized_def op_flags)
qed (simp_all add: flag_simps op_flags Inv_flag)

theorem flag_implies_unit_witness:
  "produced (FromEuler 0 0 0) \<and> m_isNormalized (FromEuler 0 0 0) \<and> Norm (FromEuler 0 0 0) = 1 \<and>
   produced (Normalize (Quaternion_wxyz 2 0 0 0)) \<and>
   m_isNormalized (Normalize (Quaternion_wxyz 2 0 0 0)) \<and>
   Norm (Normalize (Quaternion_wxyz 2 0 0 0)) = 1"
proof -
  have f: "m_isNormalized (FromEuler 0 0 0)"
    by (simp add: FromEuler_def Let_def Normalize_def flag_simps)
  have d2: "DotProduct (Quaternion_wxyz 2 0 0 0) (Quaternion_wxyz 2 0 0 0) = 4"
    by (simp add: DotProduct_def VDot_def Quaternion_wxyz_def Vec_def)
  have n2: "Norm (Quaternion_wxyz 2 0 0 0) \<noteq> 0"
    by (simp add: Norm_def d2)
  have p2: "produced (Normalize (Quaternion_wxyz 2 0 0 0))"
    by (rule p_Normalize [OF p_wxyz n2])
  have f2: "m_isNormalized (Normalize (Quaternion_wxyz 2 0 0 0))"
    by (simp add: Normalize_def flag_simps)
  show ?thesis
    using flag_implies_unit [OF p_FromEuler, of 0 0 0] flag_implies_unit [OF p2] f f2 p2
      p_FromEuler [of 0 0 0]
    by blast
qed

section \<open>The clamp of \<open>ToEuler\<close>\<close>

text \<open>
  C8. \<open>ToEuler\<close> returns a triple for every quaternion, and when the pitch sine
  \<open>sinp = 2 * (w * y - z * x)\<close> has absolute value at least 1 the pitch component of the
  triple is \<open>pi / 2\<close> with the sign of \<open>sinp\<close>.
\<close>

theorem ToEuler_clamp:
  "1 \<le> \<bar>sinp_of q\<bar> \<Longrightarrow>
     (\<exists>roll yaw. ToEuler negr negy q
        = Vec roll (if 0 < sinp_of q then pi / 2 else - (pi / 2)) yaw)"
  by (auto simp add: ToEuler_def sinp_of_def Let_def copysign_def PI_L_def)

theorem ToEuler_clamp_witness:
  "1 \<le> \<bar>sinp_of (Quaternion_wxyz 1 0 1 0)\<bar> \<and>
   GetY (ToEuler False False (Quaternion_wxyz 1 0 1 0)) = pi / 2 \<and>
   1 \<le> \<bar>sinp_of (Quaternion_wxyz 1 0 (-1) 0)\<bar> \<and>
   GetY (ToEuler True True (Quaternion_wxyz 1 0 (-1) 0)) = - (pi / 2)"
proof -
  have a: "sinp_of (Quaternion_wxyz 1 0 1 0) = 2"
    by (simp add: sinp_of_def Quaternion_wxyz_def Vec_sel)
  have b: "sinp_of (Quaternion_wxyz 1 0 (-1) 0) = -2"
    by (simp add: sinp_of_def Quaternion_wxyz_def Vec_sel)
  show ?thesis
    using ToEuler_clamp [of "Quaternion_wxyz 1 0 1 0" False False]
      ToEuler_clamp [of "Quaternion_wxyz 1 0 (-1) 0" True True]
    by (auto simp add: a b Vec_sel)
qed

section \<open>Rotation\<close>

lemma VDot_rot:
  assumes "DotProduct q q = 1"
  shows "VDot (m_v (QMul (QMulV q v) (Conj q))) (m_v (QMul (QMulV q v) (Conj q))) = VDot v v"
proof -
  obtain w x y z where q: "m_w q = w" "GetX (m_v q) = x" "GetY (m_v q) = y" "GetZ (m_v q) = z" by simp
  obtain a b c where v: "GetX v = a" "GetY v = b" "GetZ v = c" by simp
  have n: "w*w + (x*x + y*y + z*z) = 1" using assms by (simp add: DotProduct_def VDot_def q)
  have "VDot (m_v (QMul (QMulV q v) (Conj q))) (m_v (QMul (QMulV q v) (Conj q)))
     = (w*w + (x*x + y*y + z*z)) * (w*w + (x*x + y*y + z*z)) * (a*a + b*b + c*c)"
    by (simp add: QMul_def QMulV_def Conj_def Quaternion_wv_def Quaternion_v_def VDot_def VAdd_def
       VScale_def VCross_def VNeg_def Vec_sel q v) algebra
  then show ?thesis by (simp add: n VDot_def v)
qed

lemma Rotation_unit:
  assumes "Norm q = 1"
  shows "Rotation q v = m_v (QMul (QMulV q v) (Conj q))"
  using assms by (simp add: Rotation_def QDiv_one sel_wv)

text \<open>
  C5. For a quaternion \<open>q\<close> of norm 1, with its flag set or clear, and every vector
  \<open>v\<close>, the vector \<open>Rotation q v\<close> has the Euclidean norm of \<open>v\<close>.
\<close>

theorem Rotation_preserves_norm:
  "Norm q = 1 \<Longrightarrow> VNorm (Rotation q v) = VNorm v"
  by (simp add: Rotation_unit VNorm_def VDot_rot Norm_one_iff)

theorem Rotation_preserves_norm_witness:
  "Norm (Quaternion_wxyz 0 0 0 1) = 1 \<and>
   VNorm (Rotation (Quaternion_wxyz 0 0 0 1) (Vec 1 2 3)) = VNorm (Vec 1 2 3) \<and>
   Rotation (Quaternion_wxyz 0 0 0 1) (Vec 1 2 3) = Vec (-1) (-2) 3 \<and>
   Norm ((Quaternion_wxyz 0 0 0 1)\<lparr>m_isNormalized := True\<rparr>) = 1 \<and>
   VNorm (Rotation ((Quaternion_wxyz 0 0 0 1)\<lparr>m_isNormalized := True\<rparr>) (Vec 1 2 3)) = VNorm (Vec 1 2 3)"
proof -
  have n: "Norm (Quaternion_wxyz 0 0 0 1) = 1"
    by (simp add: Norm_def DotProduct_def VDot_def Quaternion_wxyz_def Vec_sel)
  have n': "Norm ((Quaternion_wxyz 0 0 0 1)\<lparr>m_isNormalized := True\<rparr>) = 1"
    by (simp add: Norm_def DotProduct_def VDot_def Quaternion_wxyz_def Vec_sel)
  have r: "Rotation (Quaternion_wxyz 0 0 0 1) (Vec 1 2 3) = Vec (-1) (-2) 3"
    unfolding Rotation_unit [OF n]
    by (simp add: QDiv_def QMul_def QMulV_def Conj_def Quaternion_wv_def
        Quaternion_v_def Quaternion_wxyz_def VDot_def VAdd_def VScale_def VCross_def VNeg_def
        VDiv_def Vec_sel)
  show ?thesis
    using Rotation_preserves_norm [OF n, of "Vec 1 2 3"] Rotation_preserves_norm [OF n', of "Vec 1 2 3"]
      n n' r by simp
qed

section \<open>Angular velocity between equal samples\<close>

lemma QSub_self: "QSub q q = Quaternion_wv 0 (Vec 0 0 0)"
  by (simp add: QSub_def VSub_def)

text \<open>
  C9. For a quaternion \<open>q\<close> of norm 1 and a positive \<open>deltaT\<close>,
  \<open>AverageAngularVelocity q q deltaT\<close> is the zero vector, when \<open>q\<close> is pure and
  when it is first reduced to the rotated reference axis.
\<close>

theorem AverageAngularVelocity_same:
  "Norm q = 1 \<Longrightarrow> 0 < deltaT \<Longrightarrow> AverageAngularVelocity q q deltaT = Vec 0 0 0"
proof -
  assume u: "Norm q = 1"
  have d: "\<not> DotProduct q q < 0" by (simp add: not_less DotProduct_nonneg)
  show ?thesis
    by (simp add: AverageAngularVelocity_def Let_def d QSub_self QScale_def QMul_def sel_wv
        VScale_def VAdd_def VCross_def VDot_def Vec_sel)
qed

theorem AverageAngularVelocity_same_witness:
  "Norm (Quaternion_wxyz 0 1 0 0) = 1 \<and> IsPur (Quaternion_wxyz 0 1 0 0) \<and>
   AverageAngularVelocity (Quaternion_wxyz 0 1 0 0) (Quaternion_wxyz 0 1 0 0) 2 = Vec 0 0 0 \<and>
   Norm (FromEuler 0 0 0) = 1 \<and> \<not> IsPur (FromEuler 0 0 0) \<and>
   AverageAngularVelocity (FromEuler 0 0 0) (FromEuler 0 0 0) 2 = Vec 0 0 0"
proof -
  have n: "Norm (Quaternion_wxyz 0 1 0 0) = 1"
    by (simp add: Norm_def DotProduct_def VDot_def Quaternion_wxyz_def Vec_sel)
  have p: "IsPur (Quaternion_wxyz 0 1 0 0)"
    by (simp add: IsPur_def Quaternion_wxyz_def)
  have p': "\<not> IsPur (FromEuler 0 0 0)"
    by (simp add: IsPur_def FromEuler_value EulerRaw_def sel_wv)
  show ?thesis
    using AverageAngularVelocity_same [OF n, of 2]
      AverageAngularVelocity_same [OF Norm_FromEuler, of 2 0 0 0] n p p' Norm_FromEuler [of 0 0 0]
    by simp
qed

section \<open>Spherical interpolation\<close>

lemma Inv_unit: "Norm q = 1 \<Longrightarrow> Inv q = Conj q"
  by (simp add: Inv_def QDiv_one Conj_def sel_wv)

lemma VNorm_nonneg: "0 \<le> VNorm v"
  by (simp add: VNorm_def VDot_def)

lemma VNorm_zero_iff: "VNorm v = 0 \<longleftrightarrow> v = Vec 0 0 0"
proof -
  have "VNorm v = 0 \<longleftrightarrow> GetX v * GetX v + GetY v * GetY v + GetZ v * GetZ v = 0"
    by (simp add: VNorm_def VDot_def)
  also have "\<dots> \<longleftrightarrow> GetX v = 0 \<and> GetY v = 0 \<and> GetZ v = 0"
    by (smt (verit) mult_eq_0_iff zero_le_square add_nonneg_eq_0_iff add_nonneg_nonneg)
  finally show ?thesis by (simp add: Vec_eq_iff Vec_sel)
qed

lemma VNorm_VScale: "VNorm (VScale s a) = \<bar>s\<bar> * VNorm a"
proof -
  have "VDot (VScale s a) (VScale s a) = s\<^sup>2 * VDot a a"
    by (simp add: VDot_def VScale_def Vec_sel power2_eq_square algebra_simps)
  then show ?thesis by (simp add: VNorm_def real_sqrt_mult)
qed

lemma VDiv_VScale: "VDiv a s = VScale (1 / s) a"
  by (simp add: VDiv_def VScale_def)

lemma VNorm_VDiv_self: "VNorm v \<noteq> 0 \<Longrightarrow> VNorm (VDiv v (VNorm v)) = 1"
  using VNorm_nonneg [of v] by (simp add: VDiv_VScale VNorm_VScale)

lemma VScale_VScale: "VScale s (VScale t a) = VScale (s * t) a"
  by (simp add: VScale_def Vec_sel)

lemma VScale_one: "VScale 1 a = a"
  by (simp add: VScale_def Vec_eta)

lemma Norm_split: "DotProduct q q = (m_w q)\<^sup>2 + (VNorm (m_v q))\<^sup>2"
  by (simp add: DotProduct_def VNorm_def VDot_def power2_eq_square)

lemma Exp_Log_unit:
  assumes u: "Norm p = 1" and w: "0 \<le> m_w p"
  shows "QEq (Exp (QScale (Log p) 1)) p"
proof (cases "VNorm (m_v p) = 0")
  case True
  have "(m_w p)\<^sup>2 = 1" using u True by (simp add: Norm_one_iff Norm_split)
  then have w1: "m_w p = 1" using w by (simp add: power2_eq_1_iff)
  show ?thesis
    using True by (simp add: QEq_def Exp_def Log_def QScale_def sel_wv VScale_one u w1)
next
  case False
  define n where "n = VNorm (m_v p)"
  define t where "t = arccos (m_w p)"
  have npos: "0 < n" using False VNorm_nonneg [of "m_v p"] by (simp add: n_def)
  have sq: "(m_w p)\<^sup>2 + n\<^sup>2 = 1" using u by (simp add: Norm_one_iff Norm_split n_def)
  have "(m_w p)\<^sup>2 < 1" using sq npos by (smt (verit) zero_less_power)
  then have "\<bar>m_w p\<bar> < 1" by (simp add: abs_square_less_1)
  then have w1: "m_w p < 1" "-1 < m_w p" by auto
  have tpos: "0 < t" "t < pi" using arccos_lt_bounded [of "m_w p"] w1 by (simp_all add: t_def)
  have ct: "cos t = m_w p" using w1 by (simp add: t_def)
  have st: "sin t = n"
  proof -
    have "sin t = sqrt (1 - (m_w p)\<^sup>2)" using w1 by (simp add: t_def sin_arccos)
    also have "1 - (m_w p)\<^sup>2 = n\<^sup>2" using sq by simp
    finally show ?thesis using npos by simp
  qed
  have L: "QScale (Log p) 1 = Quaternion_wv 0 (VScale t (VDiv (m_v p) n))"
    using False by (simp add: Log_def QScale_def sel_wv VScale_one u n_def t_def)
  have vn: "VNorm (VScale t (VDiv (m_v p) n)) = t"
    using tpos VNorm_VDiv_self [OF False] by (simp add: VNorm_VScale n_def)
  have "VScale (sin t) (VDiv (VScale t (VDiv (m_v p) n)) t) = m_v p"
    using tpos npos by (simp add: st VDiv_VScale VScale_VScale VScale_one)
  then show ?thesis
    using tpos by (simp add: QEq_def Exp_def L sel_wv vn ct)
qed

lemma QMul_cong: "QEq a b \<Longrightarrow> QMul q a = QMul q b"
  by (simp add: QEq_def QMul_def)

lemma QMul_Conj_cancel:
  assumes "Norm q1 = 1"
  shows "QEq (QMul q1 (QMul (Conj q1) q2)) q2"
proof -
  obtain w x y z where q: "m_w q1 = w" "GetX (m_v q1) = x" "GetY (m_v q1) = y" "GetZ (m_v q1) = z" by simp
  obtain a b c d where v: "m_w q2 = a" "GetX (m_v q2) = b" "GetY (m_v q2) = c" "GetZ (m_v q2) = d" by simp
  have n: "w*w + (x*x + y*y + z*z) = 1" using assms by (simp add: Norm_one_iff DotProduct_def VDot_def q)
  have e: "\<And>r::real. r = (w*w + (x*x + y*y + z*z)) * r" by (simp add: n)
  have 1: "m_w (QMul q1 (QMul (Conj q1) q2)) = (w*w + (x*x + y*y + z*z)) * a"
    by (simp add: QMul_def Conj_def sel_wv VDot_def VAdd_def VScale_def VCross_def VNeg_def Vec_sel q v)
       algebra
  have 2: "GetX (m_v (QMul q1 (QMul (Conj q1) q2))) = (w*w + (x*x + y*y + z*z)) * b"
    by (simp add: QMul_def Conj_def sel_wv VDot_def VAdd_def VScale_def VCross_def VNeg_def Vec_sel q v)
       algebra
  have 3: "GetY (m_v (QMul q1 (QMul (Conj q1) q2))) = (w*w + (x*x + y*y + z*z)) * c"
    by (simp add: QMul_def Conj_def sel_wv VDot_def VAdd_def VScale_def VCross_def VNeg_def Vec_sel q v)
       algebra
  have 4: "GetZ (m_v (QMul q1 (QMul (Conj q1) q2))) = (w*w + (x*x + y*y + z*z)) * d"
    by (simp add: QMul_def Conj_def sel_wv VDot_def VAdd_def VScale_def VCross_def VNeg_def Vec_sel q v)
       algebra
  show ?thesis
    unfolding QEq_def Vec_eq_iff 1 2 3 4 n by (simp add: v)
qed

lemma DotProduct_QMul:
  "DotProduct (QMul p q) (QMul p q) = DotProduct p p * DotProduct q q"
  by (simp add: DotProduct_def QMul_def sel_wv VDot_def VAdd_def VScale_def VCross_def Vec_sel)
     algebra

lemma DotProduct_Conj: "DotProduct (Conj q) (Conj q) = DotProduct q q"
  by (simp add: DotProduct_def Conj_def sel_wv VDot_def VNeg_def Vec_sel)

lemma DotProduct_QNeg: "DotProduct (QNeg q) (QNeg q) = DotProduct q q"
  by (simp add: DotProduct_def QNeg_def sel_wv VDot_def VNeg_def Vec_sel)

lemma w_Conj_QMul: "m_w (QMul (Conj p) q) = DotProduct p q"
  by (simp add: DotProduct_def QMul_def Conj_def sel_wv VDot_def VNeg_def Vec_sel)

lemma DotProduct_QNeg_right: "DotProduct p (QNeg q) = - DotProduct p q"
  by (simp add: DotProduct_def QNeg_def sel_wv VDot_def VNeg_def Vec_sel)

lemma pow_zero: "QEq (pow p 0) (Quaternion_w 1)"
proof -
  have "QScale (Log p) 0 = Quaternion_wv 0 (Vec 0 0 0)"
    by (simp add: QScale_def VScale_def)
  moreover have "VNorm (Vec 0 0 0) = 0" by (simp add: VNorm_zero_iff)
  ultimately show ?thesis
    by (simp add: pow_def Exp_def sel_wv QEq_def Quaternion_w_def)
qed

lemma QMul_one: "QEq (QMul q (Quaternion_w 1)) q"
  by (simp add: QEq_def QMul_def Quaternion_w_def sel_wv VDot_def VAdd_def VScale_def VCross_def
      Vec_sel Vec_eta)

lemma QEq_trans: "QEq a b \<Longrightarrow> QEq b c \<Longrightarrow> QEq a c"
  by (simp add: QEq_def)

lemma SLERP_zero: "QEq (SLERP q1 q2 0) q1"
proof -
  have "\<And>p. QEq (QMul q1 (pow p 0)) q1"
    using QMul_cong [OF pow_zero] QMul_one by (simp add: QEq_def)
  then show ?thesis by (simp add: SLERP_def)
qed

lemma SLERP_one_aux:
  assumes "Norm q1 = 1" "Norm r = 1" "0 \<le> DotProduct q1 r"
  shows "QEq (QMul q1 (pow (QMul (Inv q1) r) 1)) r"
proof -
  let ?p = "QMul (Conj q1) r"
  have "Norm ?p = 1"
    using assms(1,2) by (simp add: Norm_one_iff DotProduct_QMul DotProduct_Conj)
  moreover have "0 \<le> m_w ?p" using assms(3) by (simp add: w_Conj_QMul)
  ultimately have "QEq (pow ?p 1) ?p"
    unfolding pow_def by (rule Exp_Log_unit)
  then have "QMul q1 (pow ?p 1) = QMul q1 ?p" by (rule QMul_cong)
  then show ?thesis
    using QMul_Conj_cancel [OF assms(1), of r] by (simp add: Inv_unit [OF assms(1)])
qed

text \<open>
  C3, as the code has it. For quaternions \<open>q1\<close> and \<open>q2\<close> of norm 1,
  \<open>SLERP q1 q2 0\<close> equals \<open>q1\<close>, and \<open>SLERP q1 q2 1\<close> equals \<open>q2\<close> when the dot
  product of \<open>q1\<close> and \<open>q2\<close> is not negative and equals \<open>-q2\<close>, the quaternion the
  code interpolates towards, when it is negative. Equality is that of \<open>operator==\<close>, and it
  is exact over the reals.
\<close>

theorem SLERP_endpoints:
  assumes "Norm q1 = 1" "Norm q2 = 1"
  shows "QEq (SLERP q1 q2 0) q1 \<and>
         QEq (SLERP q1 q2 1) (if DotProduct q1 q2 < 0 then QNeg q2 else q2)"
proof (cases "DotProduct q1 q2 < 0")
  case True
  have "Norm (QNeg q2) = 1" using assms(2) by (simp add: Norm_one_iff DotProduct_QNeg)
  moreover have "0 \<le> DotProduct q1 (QNeg q2)" using True by (simp add: DotProduct_QNeg_right)
  ultimately have "QEq (QMul q1 (pow (QMul (Inv q1) (QNeg q2)) 1)) (QNeg q2)"
    using assms(1) by (simp add: SLERP_one_aux)
  then have "QEq (SLERP q1 q2 1) (QNeg q2)" using True by (simp add: SLERP_def)
  then show ?thesis using True SLERP_zero [of q1 q2] by simp
next
  case False
  then have "QEq (QMul q1 (pow (QMul (Inv q1) q2) 1)) q2"
    using assms by (simp add: SLERP_one_aux)
  then have "QEq (SLERP q1 q2 1) q2" using False by (simp add: SLERP_def)
  then show ?thesis using False SLERP_zero [of q1 q2] by simp
qed

lemma Norm_wxyz: "Norm (Quaternion_wxyz w a b c) = sqrt (w * w + (a * a + b * b + c * c))"
  by (simp add: Norm_def DotProduct_def VDot_def Quaternion_wxyz_def Vec_sel)

theorem SLERP_endpoints_witness:
  "Norm (Quaternion_wxyz 1 0 0 0) = 1 \<and> Norm (Quaternion_wxyz 0 1 0 0) = 1 \<and>
   QEq (SLERP (Quaternion_wxyz 1 0 0 0) (Quaternion_wxyz 0 1 0 0) 0) (Quaternion_wxyz 1 0 0 0) \<and>
   QEq (SLERP (Quaternion_wxyz 1 0 0 0) (Quaternion_wxyz 0 1 0 0) 1) (Quaternion_wxyz 0 1 0 0) \<and>
   Norm (Quaternion_wxyz (-1) 0 0 0) = 1 \<and>
   QEq (SLERP (Quaternion_wxyz 1 0 0 0) (Quaternion_wxyz (-1) 0 0 0) 1)
       (QNeg (Quaternion_wxyz (-1) 0 0 0))"
proof -
  have n1: "Norm (Quaternion_wxyz 1 0 0 0) = 1" by (simp add: Norm_wxyz)
  have n2: "Norm (Quaternion_wxyz 0 1 0 0) = 1" by (simp add: Norm_wxyz)
  have n3: "Norm (Quaternion_wxyz (-1) 0 0 0) = 1" by (simp add: Norm_wxyz)
  have d2: "\<not> DotProduct (Quaternion_wxyz 1 0 0 0) (Quaternion_wxyz 0 1 0 0) < 0"
    by (simp add: DotProduct_def VDot_def Quaternion_wxyz_def Vec_sel)
  have d3: "DotProduct (Quaternion_wxyz 1 0 0 0) (Quaternion_wxyz (-1) 0 0 0) < 0"
    by (simp add: DotProduct_def VDot_def Quaternion_wxyz_def Vec_sel)
  show ?thesis
    using SLERP_endpoints [OF n1 n2] SLERP_endpoints [OF n1 n3] n1 n2 n3 d2 d3 by simp
qed

text \<open>
  C3 as stated fails where the dot product is negative: between the unit quaternions
  \<open>(1, 0, 0, 0)\<close> and \<open>(-1, 0, 0, 0)\<close>, \<open>SLERP\<close> at \<open>k = 1\<close> returns
  \<open>(1, 0, 0, 0)\<close>, at distance 2 from the second argument.
\<close>

theorem SLERP_one_counterexample:
  "Norm (Quaternion_wxyz 1 0 0 0) = 1 \<and> Norm (Quaternion_wxyz (-1) 0 0 0) = 1 \<and>
   SLERP (Quaternion_wxyz 1 0 0 0) (Quaternion_wxyz (-1) 0 0 0) 1 = Quaternion_wxyz 1 0 0 0 \<and>
   \<not> QEq (SLERP (Quaternion_wxyz 1 0 0 0) (Quaternion_wxyz (-1) 0 0 0) 1)
           (Quaternion_wxyz (-1) 0 0 0) \<and>
   Distance (SLERP (Quaternion_wxyz 1 0 0 0) (Quaternion_wxyz (-1) 0 0 0) 1)
            (Quaternion_wxyz (-1) 0 0 0) = 2"
proof -
  have n1: "Norm (Quaternion_wxyz 1 0 0 0) = 1" by (simp add: Norm_wxyz)
  have n3: "Norm (Quaternion_wxyz (-1) 0 0 0) = 1" by (simp add: Norm_wxyz)
  have z: "VNorm (Vec 0 0 0) = 0" by (simp add: VNorm_zero_iff)
  have i: "Inv (Quaternion_wxyz 1 0 0 0) = Quaternion_wxyz 1 0 0 0"
    by (simp add: Inv_unit [OF n1] Conj_def) (simp add: Quaternion_wxyz_def Quaternion_wv_def VNeg_def Vec_sel)
  have m: "QMul (Quaternion_wxyz 1 0 0 0) (QNeg (Quaternion_wxyz (-1) 0 0 0)) = Quaternion_wxyz 1 0 0 0"
    by (simp add: QMul_def QNeg_def Quaternion_wxyz_def Quaternion_wv_def VNeg_def VDot_def VAdd_def
        VScale_def VCross_def Vec_sel)
  have l: "QScale (Log (Quaternion_wxyz 1 0 0 0)) 1 = Quaternion_wv 0 (Vec 0 0 0)"
    by (simp add: Log_def n1 QScale_def sel_wv VScale_one) (simp add: Quaternion_wxyz_def z)
  have e: "Exp (Quaternion_wv 0 (Vec 0 0 0)) = Quaternion_wxyz 1 0 0 0"
    by (simp add: Exp_def sel_wv z) (simp add: Quaternion_wxyz_def Quaternion_wv_def)
  have m2: "QMul (Quaternion_wxyz 1 0 0 0) (Quaternion_wxyz 1 0 0 0) = Quaternion_wxyz 1 0 0 0"
    by (simp add: QMul_def Quaternion_wxyz_def Quaternion_wv_def VDot_def VAdd_def
        VScale_def VCross_def Vec_sel)
  have d3: "DotProduct (Quaternion_wxyz 1 0 0 0) (Quaternion_wxyz (-1) 0 0 0) < 0"
    by (simp add: DotProduct_def VDot_def Quaternion_wxyz_def Vec_sel)
  have s: "SLERP (Quaternion_wxyz 1 0 0 0) (Quaternion_wxyz (-1) 0 0 0) 1 = Quaternion_wxyz 1 0 0 0"
    by (simp add: SLERP_def d3 i m pow_def l e m2)
  have q: "\<not> QEq (Quaternion_wxyz 1 0 0 0) (Quaternion_wxyz (-1) 0 0 0)"
    by (simp add: QEq_def Quaternion_wxyz_def)
  have "QSub (Quaternion_wxyz (-1) 0 0 0) (Quaternion_wxyz 1 0 0 0) = Quaternion_wxyz (-2) 0 0 0"
    by (simp add: QSub_def Quaternion_wxyz_def Quaternion_wv_def VSub_def Vec_sel)
  then have d: "Distance (Quaternion_wxyz 1 0 0 0) (Quaternion_wxyz (-1) 0 0 0) = 2"
    by (simp add: Distance_def Norm_wxyz)
  show ?thesis using n1 n3 s q d by simp
qed



section \<open>Euler angles\<close>











section \<open>The visibility histogram\<close>

lemma length_map_modify: "length (map_modify k d f m) \<le> Suc (length m)"
  by (induction m) auto

lemma keys_map_modify:
  "fst ` set (map_modify k d f m) = insert k (fst ` set m)"
  for k :: "'k::linorder"
proof (induction m)
  case Nil
  show ?case by simp
next
  case (Cons e m)
  obtain k' v where e: "e = (k', v)" by (cases e)
  show ?case by (auto simp add: e Cons.IH)
qed

lemma sorted_map_modify:
  "sorted_wrt (<) (map fst m) \<Longrightarrow> sorted_wrt (<) (map fst (map_modify k d f m))"
  for k :: "'k::linorder"
proof (induction m)
  case Nil
  then show ?case by simp
next
  case (Cons e m)
  obtain k' v where e: "e = (k', v)" by (cases e)
  have s: "sorted_wrt (<) (map fst m)" and g: "\<forall>x\<in>set (map fst m). k' < x"
    using Cons.prems by (simp_all add: e)
  consider (lt) "k < k'" | (gt) "k' < k" | (eq) "k = k'" by (rule linorder_cases)
  then show ?case
  proof cases
    case lt
    have "\<forall>x\<in>set (map fst m). k < x" using g lt by auto
    then show ?thesis using lt s g by (simp add: e)
  next
    case gt
    have "\<forall>y\<in>fst ` set (map_modify k d f m). k' < y"
      unfolding keys_map_modify using g gt by auto
    then have "\<forall>x\<in>set (map fst (map_modify k d f m)). k' < x"
      by simp
    moreover have "sorted_wrt (<) (map fst (map_modify k d f m))"
      using s by (rule Cons.IH)
    ultimately show ?thesis using gt by (auto simp add: e)
  next
    case eq
    then show ?thesis using s g by (simp add: e)
  qed
qed

lemma sum_map_modify:
  "sum_list (map snd (map_modify k 0 (\<lambda>c. c + 1) m)) = sum_list (map snd m) + (1::int)"
  by (induction m) auto

lemma positive_map_modify:
  "list_all (\<lambda>e. (1::int) \<le> snd e) m \<Longrightarrow>
   list_all (\<lambda>e. 1 \<le> snd e) (map_modify k 0 (\<lambda>c. c + 1) m)"
  by (induction m) auto

lemma tileVisibilityLoop_invariant:
  "tileVisibilityLoop GetTheta GetPhi au q js tvm = Inr h \<Longrightarrow>
   list_all (\<lambda>e. 1 \<le> snd e) tvm \<Longrightarrow> sorted_wrt (<) (map fst tvm) \<Longrightarrow>
   list_all (\<lambda>e. 1 \<le> snd e) h \<and> sorted_wrt (<) (map fst h) \<and>
   length h \<le> length tvm + length js \<and>
   sum_list (map snd h) = sum_list (map snd tvm) + int (length js)"
proof (induction js arbitrary: tvm)
  case Nil
  then show ?case by simp
next
  case (Cons j js)
  from Cons.prems(1) obtain tile where
    t: "mapCoordToTile au (fromViewportCoordToEquirectCoord GetTheta GetPhi q (samplePoints au ! j))
          = Inr tile"
    and l: "tileVisibilityLoop GetTheta GetPhi au q js (map_modify tile 0 (\<lambda>c. c + 1) tvm) = Inr h"
    by (auto split: sum.splits)
  have "list_all (\<lambda>e. 1 \<le> snd e) h \<and> sorted_wrt (<) (map fst h) \<and>
        length h \<le> length (map_modify tile 0 (\<lambda>c. c + 1) tvm) + length js \<and>
        sum_list (map snd h)
          = sum_list (map snd (map_modify tile 0 (\<lambda>c. c + 1) tvm)) + int (length js)"
    using l Cons.prems(2,3) by (intro Cons.IH positive_map_modify sorted_map_modify)
  then show ?case
    using length_map_modify [of tile 0 "\<lambda>c. c + 1" tvm] by (simp add: sum_map_modify)
qed

lemma SAMPLEPOINTS_81: "SAMPLEPOINTS = 81"
  by (simp add: SAMPLEPOINTS_def SAMPLERES_def)

text \<open>
  C10. In every histogram that \<open>computeTileVisibility\<close> returns, every entry has a
  count of at least 1, the keys are pairwise distinct, and there are at most 81 of them.
\<close>

theorem histogram_entries_positive:
  "computeTileVisibility GetTheta GetPhi au headRotation = Inr h \<Longrightarrow>
     list_all (\<lambda>e. 1 \<le> snd e) h \<and> distinct (map fst h) \<and> length h \<le> 81"
proof -
  assume "computeTileVisibility GetTheta GetPhi au headRotation = Inr h"
  then have "tileVisibilityLoop GetTheta GetPhi au headRotation [0..<SAMPLEPOINTS] [] = Inr h"
    by (simp add: computeTileVisibility_def)
  from tileVisibilityLoop_invariant [OF this]
  have "list_all (\<lambda>e. 1 \<le> snd e) h \<and> sorted_wrt (<) (map fst h) \<and> length h \<le> 81"
    by (simp add: SAMPLEPOINTS_81)
  then show ?thesis by (simp add: strict_sorted_iff)
qed

lemma lower_bound_Some:
  "list_ex (\<lambda>e. \<not> fst e < k) m \<Longrightarrow> \<exists>v. lower_bound m k = Some v \<and> v \<in> snd ` set m"
proof (induction m)
  case Nil
  then show ?case by simp
next
  case (Cons e m)
  obtain k' v where e: "e = (k', v)" by (cases e)
  show ?case
  proof (cases "k' < k")
    case True
    then have "list_ex (\<lambda>e. \<not> fst e < k) m" using Cons.prems by (auto simp add: e)
    then obtain u where "lower_bound m k = Some u" "u \<in> snd ` set m"
      using Cons.IH by blast
    then show ?thesis using True by (simp add: e)
  next
    case False
    then show ?thesis by (simp add: e)
  qed
qed

lemma boundary_at_or_above: "c \<le> 1 \<Longrightarrow> Finite 1 \<le> b \<Longrightarrow> \<not> b < Finite c"
  by (cases b) (auto simp add: less_eq_boundary_def)

lemma mapCoordToTile_defined:
  assumes "columnsReachOne au" "coord_x c \<le> 1" "coord_y c \<le> 1"
  shows "\<exists>t. mapCoordToTile au c = Inr t"
proof -
  have "list_ex (\<lambda>e. \<not> fst e < Finite (coord_x c)) (normalizedCoordTileMapping au)"
    using assms(1,2) boundary_at_or_above
    by (auto simp add: columnsReachOne_def list_ex_iff)
  then obtain column where
    col: "lower_bound (normalizedCoordTileMapping au) (Finite (coord_x c)) = Some column"
    and mem: "column \<in> snd ` set (normalizedCoordTileMapping au)"
    using lower_bound_Some by blast
  have "list_ex (\<lambda>b. Finite 1 \<le> fst b) column"
    using assms(1) mem by (auto simp add: columnsReachOne_def list_all_iff)
  then have "list_ex (\<lambda>b. \<not> fst b < Finite (coord_y c)) column"
    using assms(3) boundary_at_or_above by (auto simp add: list_ex_iff)
  then obtain t where "lower_bound column (Finite (coord_y c)) = Some t"
    using lower_bound_Some by blast
  then show ?thesis by (simp add: mapCoordToTile_def col)
qed

lemma fmod_one_nonneg: "0 \<le> a \<Longrightarrow> 0 \<le> fmod a 1"
  by (simp add: fmod_def)

lemma PI_pos: "0 < PI"
  by (simp add: PI_def)

lemma equirect_in_range:
  assumes "- (3 / 2) * PI \<le> GetTheta (Rotation q (coordBefRot p))"
    and "GetPhi (Rotation q (coordBefRot p)) \<le> PI"
  shows "coord_x (fromViewportCoordToEquirectCoord GetTheta GetPhi q p) \<le> 1 \<and>
         coord_y (fromViewportCoordToEquirectCoord GetTheta GetPhi q p) \<le> 1"
proof -
  let ?t = "GetTheta (Rotation q (coordBefRot p))"
  have "- (3 / 4) \<le> ?t / (2 * PI)"
    using assms(1) PI_pos by (simp add: field_simps)
  then have "0 \<le> 0.75 + ?t / (2 * PI)" by simp
  then have "0 \<le> fmod (0.75 + ?t / (2 * PI)) 1" by (rule fmod_one_nonneg)
  moreover have "GetPhi (Rotation q (coordBefRot p)) / PI \<le> 1"
    using assms(2) PI_pos by (simp add: field_simps)
  ultimately show ?thesis
    by (simp add: fromViewportCoordToEquirectCoord_def Let_def)
qed

lemma tileVisibilityLoop_total:
  assumes "columnsReachOne au" "\<forall>v. - (3 / 2) * PI \<le> GetTheta v" "\<forall>v. GetPhi v \<le> PI"
  shows "\<exists>h. tileVisibilityLoop GetTheta GetPhi au q js tvm = Inr h"
proof (induction js arbitrary: tvm)
  case Nil
  show ?case by simp
next
  case (Cons j js)
  have "coord_x (fromViewportCoordToEquirectCoord GetTheta GetPhi q (samplePoints au ! j)) \<le> 1 \<and>
        coord_y (fromViewportCoordToEquirectCoord GetTheta GetPhi q (samplePoints au ! j)) \<le> 1"
    using assms(2,3) by (intro equirect_in_range) simp_all
  then obtain t where
    "mapCoordToTile au (fromViewportCoordToEquirectCoord GetTheta GetPhi q (samplePoints au ! j))
       = Inr t"
    using mapCoordToTile_defined [OF assms(1)] by blast
  then show ?case using Cons.IH by simp
qed

text \<open>
  C2, as the code has it. For a resolver whose index has some X boundary at or above 1.0
  and, in every column, some Y boundary at or above 1.0, as the index built from a grid
  layout that reaches 1.0 in both axes has, and for every head rotation,
  \<open>computeTileVisibility\<close> returns a histogram whose counts sum to 81. The spherical angles
  come from the absent \<open>Vector.hpp\<close>; they are assumed to satisfy \<open>theta \<ge> - 3/2 * PI\<close> and
  \<open>phi \<le> PI\<close>, which keeps both equirectangular coordinates at most 1.0.
\<close>

theorem histogram_total_81:
  assumes "columnsReachOne au"
    and "\<forall>v. - (3 / 2) * PI \<le> GetTheta v" and "\<forall>v. GetPhi v \<le> PI"
  shows "\<exists>h. computeTileVisibility GetTheta GetPhi au headRotation = Inr h \<and>
             sum_list (map snd h) = 81"
proof -
  obtain h where h: "tileVisibilityLoop GetTheta GetPhi au headRotation [0..<SAMPLEPOINTS] [] = Inr h"
    using tileVisibilityLoop_total [OF assms] by blast
  from tileVisibilityLoop_invariant [OF this]
  have "sum_list (map snd h) = 81" by (simp add: SAMPLEPOINTS_81)
  then show ?thesis using h by (simp add: computeTileVisibility_def)
qed

lemma tileVisibilityLoop_single:
  assumes "\<forall>j\<in>set js. mapCoordToTile au
             (fromViewportCoordToEquirectCoord GetTheta GetPhi q (samplePoints au ! j)) = Inr t"
  shows "tileVisibilityLoop GetTheta GetPhi au q js [(t, c)] = Inr [(t, c + int (length js))]"
  using assms by (induction js arbitrary: c) simp_all

lemma computeTileVisibility_single:
  assumes "\<forall>p. mapCoordToTile au (fromViewportCoordToEquirectCoord GetTheta GetPhi q p) = Inr t"
  shows "computeTileVisibility GetTheta GetPhi au q = Inr [(t, 81)]"
proof -
  have u: "[0..<SAMPLEPOINTS] = 0 # [1..<81]"
    by (simp add: SAMPLEPOINTS_81 upt_conv_Cons)
  have "tileVisibilityLoop GetTheta GetPhi au q [1..<81] [(t, 1)]
      = Inr [(t, 1 + int (length [1..<81]))]"
    using assms by (intro tileVisibilityLoop_single) simp
  then show ?thesis
    using assms by (simp add: computeTileVisibility_def u)
qed

lemma computeTileVisibility_first_fails:
  assumes "\<forall>p. mapCoordToTile au (fromViewportCoordToEquirectCoord GetTheta GetPhi q p) = Inl e"
  shows "computeTileVisibility GetTheta GetPhi au q = Inl e"
proof -
  have u: "[0..<SAMPLEPOINTS] = 0 # [1..<81]"
    by (simp add: SAMPLEPOINTS_81 upt_conv_Cons)
  show ?thesis using assms by (simp add: computeTileVisibility_def u)
qed

lemma ctor_single_tile:
  "AdaptionUnit_ctor [\<lparr>srd_x = 0, srd_y = 0, srd_w = 3840, srd_h = 1920, srd_th = 1, srd_tv = 1\<rparr>]
     = Inr \<lparr>normalizedCoordTileMapping = [(Finite 1, [(Finite 1, 0)])],
            samplePoints = initSamplePoints\<rparr>"
  by (simp add: AdaptionUnit_ctor_def intQuotient_def Let_def)

lemma single_tile_visibility:
  "computeTileVisibility (\<lambda>v. 0) (\<lambda>v. 0)
     \<lparr>normalizedCoordTileMapping = [(Finite 1, [(Finite 1, 0)])], samplePoints = initSamplePoints\<rparr>
     (Quaternion_wxyz 1 0 0 0) = Inr [(0, 81)]"
proof -
  have f: "fmod (3 / 4) 1 = 3 / 4" by (simp add: fmod_def)
  show ?thesis
    by (rule computeTileVisibility_single)
       (simp add: mapCoordToTile_def fromViewportCoordToEquirectCoord_def Let_def f)
qed

text \<open>A grid of two by two tiles in a frame of 3840 by 1920 pixels.\<close>

lemma ctor_grid:
  "AdaptionUnit_ctor
     [\<lparr>srd_x = 0, srd_y = 0, srd_w = 1920, srd_h = 960, srd_th = 2, srd_tv = 2\<rparr>,
      \<lparr>srd_x = 1920, srd_y = 0, srd_w = 1920, srd_h = 960, srd_th = 2, srd_tv = 2\<rparr>,
      \<lparr>srd_x = 0, srd_y = 960, srd_w = 1920, srd_h = 960, srd_th = 2, srd_tv = 2\<rparr>,
      \<lparr>srd_x = 1920, srd_y = 960, srd_w = 1920, srd_h = 960, srd_th = 2, srd_tv = 2\<rparr>]
     = Inr \<lparr>normalizedCoordTileMapping =
              [(Finite (1 / 2), [(Finite (1 / 2), 0), (Finite 1, 2)]),
               (Finite 1, [(Finite (1 / 2), 1), (Finite 1, 3)])],
            samplePoints = initSamplePoints\<rparr>"
  by (simp add: AdaptionUnit_ctor_def intQuotient_def Let_def)

theorem histogram_total_81_witness:
  "AdaptionUnit_ctor
     [\<lparr>srd_x = 0, srd_y = 0, srd_w = 1920, srd_h = 960, srd_th = 2, srd_tv = 2\<rparr>,
      \<lparr>srd_x = 1920, srd_y = 0, srd_w = 1920, srd_h = 960, srd_th = 2, srd_tv = 2\<rparr>,
      \<lparr>srd_x = 0, srd_y = 960, srd_w = 1920, srd_h = 960, srd_th = 2, srd_tv = 2\<rparr>,
      \<lparr>srd_x = 1920, srd_y = 960, srd_w = 1920, srd_h = 960, srd_th = 2, srd_tv = 2\<rparr>]
     = Inr \<lparr>normalizedCoordTileMapping =
              [(Finite (1 / 2), [(Finite (1 / 2), 0), (Finite 1, 2)]),
               (Finite 1, [(Finite (1 / 2), 1), (Finite 1, 3)])],
            samplePoints = initSamplePoints\<rparr> \<and>
   columnsReachOne
     \<lparr>normalizedCoordTileMapping =
        [(Finite (1 / 2), [(Finite (1 / 2), 0), (Finite 1, 2)]),
         (Finite 1, [(Finite (1 / 2), 1), (Finite 1, 3)])],
      samplePoints = initSamplePoints\<rparr> \<and>
   (\<exists>h. computeTileVisibility
          (\<lambda>v. if 0 < GetY v then PI / 2 else - (PI / 2))
          (\<lambda>v. if 0 < GetZ v then PI / 4 else 3 * PI / 4)
          \<lparr>normalizedCoordTileMapping =
             [(Finite (1 / 2), [(Finite (1 / 2), 0), (Finite 1, 2)]),
              (Finite 1, [(Finite (1 / 2), 1), (Finite 1, 3)])],
           samplePoints = initSamplePoints\<rparr>
          (FromEuler 0 0 0) = Inr h \<and> sum_list (map snd h) = 81)"
proof -
  have r: "columnsReachOne
     \<lparr>normalizedCoordTileMapping =
        [(Finite (1 / 2), [(Finite (1 / 2), 0), (Finite 1, 2)]),
         (Finite 1, [(Finite (1 / 2), 1), (Finite 1, 3)])],
      samplePoints = initSamplePoints\<rparr>"
    by (simp add: columnsReachOne_def less_eq_boundary_def)
  have t: "\<forall>v. - (3 / 2) * PI \<le> (if 0 < GetY v then PI / 2 else - (PI / 2))"
    by (simp add: PI_def)
  have p: "\<forall>v. (if 0 < GetZ v then PI / 4 else 3 * PI / 4) \<le> PI"
    by (simp add: PI_def)
  show ?thesis
    using histogram_total_81 [OF r t p, of "FromEuler 0 0 0"] ctor_grid r by simp
qed

theorem histogram_entries_positive_witness:
  "computeTileVisibility (\<lambda>v. 0) (\<lambda>v. 0)
     \<lparr>normalizedCoordTileMapping = [(Finite 1, [(Finite 1, 0)])], samplePoints = initSamplePoints\<rparr>
     (Quaternion_wxyz 1 0 0 0) = Inr [(0, 81)] \<and>
   list_all (\<lambda>e. 1 \<le> snd e) [(0::int, 81::int)] \<and> distinct (map fst [(0::int, 81::int)]) \<and>
   length [(0::int, 81::int)] \<le> 81"
  using histogram_entries_positive [OF single_tile_visibility] single_tile_visibility by simp

text \<open>
  C2 as stated fails for a layout that is not a grid. The constructor builds, from the two
  tiles that end at \<open>(0.5, 0.5)\<close> and at \<open>(1, 1)\<close> of a frame of 3840 by 1920 pixels, an
  index whose recorded boundaries reach 1.0 in both axes, but whose first column has no Y
  boundary above 0.5. With angles that put every sample at the equirectangular coordinate
  \<open>(0.25, 0.8)\<close> the lookup dereferences \<open>end()\<close>, and no histogram is returned.
\<close>

theorem histogram_total_81_counterexample:
  "AdaptionUnit_ctor
     [\<lparr>srd_x = 0, srd_y = 0, srd_w = 1920, srd_h = 960, srd_th = 2, srd_tv = 2\<rparr>,
      \<lparr>srd_x = 1920, srd_y = 960, srd_w = 1920, srd_h = 960, srd_th = 2, srd_tv = 2\<rparr>]
     = Inr \<lparr>normalizedCoordTileMapping =
              [(Finite (1 / 2), [(Finite (1 / 2), 0)]), (Finite 1, [(Finite 1, 1)])],
            samplePoints = initSamplePoints\<rparr> \<and>
   boundariesReachOne
     \<lparr>normalizedCoordTileMapping =
        [(Finite (1 / 2), [(Finite (1 / 2), 0)]), (Finite 1, [(Finite 1, 1)])],
      samplePoints = initSamplePoints\<rparr> \<and>
   computeTileVisibility (\<lambda>v. 0) (\<lambda>v. 4 * PI / 5)
     \<lparr>normalizedCoordTileMapping =
        [(Finite (1 / 2), [(Finite (1 / 2), 0)]), (Finite 1, [(Finite 1, 1)])],
      samplePoints = initSamplePoints\<rparr>
     (FromEuler 0 0 0) = Inl NoBoundary"
proof -
  have c: "AdaptionUnit_ctor
     [\<lparr>srd_x = 0, srd_y = 0, srd_w = 1920, srd_h = 960, srd_th = 2, srd_tv = 2\<rparr>,
      \<lparr>srd_x = 1920, srd_y = 960, srd_w = 1920, srd_h = 960, srd_th = 2, srd_tv = 2\<rparr>]
     = Inr \<lparr>normalizedCoordTileMapping =
              [(Finite (1 / 2), [(Finite (1 / 2), 0)]), (Finite 1, [(Finite 1, 1)])],
            samplePoints = initSamplePoints\<rparr>"
    by (simp add: AdaptionUnit_ctor_def intQuotient_def Let_def)
  have b: "boundariesReachOne
     \<lparr>normalizedCoordTileMapping =
        [(Finite (1 / 2), [(Finite (1 / 2), 0)]), (Finite 1, [(Finite 1, 1)])],
      samplePoints = initSamplePoints\<rparr>"
    by (simp add: boundariesReachOne_def less_eq_boundary_def)
  have f: "fmod (3 / 4) 1 = 3 / 4" by (simp add: fmod_def)
  have p: "PI \<noteq> 0" by (simp add: PI_def)
  have v: "computeTileVisibility (\<lambda>v. 0) (\<lambda>v. 4 * PI / 5)
     \<lparr>normalizedCoordTileMapping =
        [(Finite (1 / 2), [(Finite (1 / 2), 0)]), (Finite 1, [(Finite 1, 1)])],
      samplePoints = initSamplePoints\<rparr>
     (FromEuler 0 0 0) = Inl NoBoundary"
    by (rule computeTileVisibility_first_fails)
       (simp add: mapCoordToTile_def fromViewportCoordToEquirectCoord_def Let_def f p)
  show ?thesis using c b v by simp
qed

section \<open>The viewing ray\<close>

lemma VNorm_1uv_pos: "0 < VNorm (Vec 1 u v)"
proof -
  have "0 < 1 + (u * u + v * v)" by (smt (verit) zero_le_square add_nonneg_nonneg)
  then show ?thesis by (simp add: VNorm_def VDot_def Vec_sel)
qed

lemma maxHDist_value: "maxHDist = 2 * tan (46 * PI / 180)"
  by (simp add: maxHDist_def monocular_horizontal_def)

lemma maxVDist_value: "maxVDist = 2 * tan (46 * PI / 180)"
  by (simp add: maxVDist_def monocular_vertical_def)

lemma sin_four_fifths: "71 / 100 \<le> sin (4 / 5 :: real)"
proof -
  have b: "\<bar>sin (4 / 5 :: real) - (\<Sum>m<5. sin_coeff m * (4 / 5) ^ m)\<bar>
             \<le> inverse (fact 5) * \<bar>4 / 5\<bar> ^ 5"
    by (rule Maclaurin_sin_bound)
  have s: "(\<Sum>m<5. sin_coeff m * (4 / 5 :: real) ^ m) = 4 / 5 - (4 / 5) ^ 3 / 6"
  proof -
    have i: "{..<5::nat} = {0, 1, 2, 3, 4}" by auto
    have c: "sin_coeff (Suc 0) = 1" "sin_coeff 2 = 0" "sin_coeff 3 = - 1 / 6" "sin_coeff 4 = 0"
      by (simp_all add: sin_coeff_def fact_numeral)
    show ?thesis by (simp add: i c)
  qed
  have f: "inverse (fact 5 :: real) = 1 / 120" by (simp add: fact_numeral)
  have a: "\<bar>4 / 5 :: real\<bar> = 4 / 5" by simp
  have "\<bar>sin (4 / 5 :: real) - (4 / 5 - (4 / 5) ^ 3 / 6)\<bar> \<le> 1 / 120 * (4 / 5) ^ 5"
    using b by (simp only: s f a)
  then have "4 / 5 - (4 / 5) ^ 3 / 6 - 1 / 120 * (4 / 5) ^ 5 \<le> sin (4 / 5 :: real)"
    by linarith
  moreover have "(71 / 100 :: real) \<le> 4 / 5 - (4 / 5) ^ 3 / 6 - 1 / 120 * (4 / 5) ^ 5"
    by (simp add: eval_nat_numeral)
  ultimately show ?thesis by linarith
qed

lemma half_fov_bounds: "4 / 5 \<le> 46 * PI / 180" "46 * PI / 180 \<le> 9 / 10"
  by (simp_all add: PI_def)

lemma tan_half_fov_gt_1: "1 < tan (46 * PI / 180)"
proof -
  let ?a = "46 * PI / 180"
  have up: "?a < pi / 2" using half_fov_bounds(2) pi_ge_two by linarith
  have "sin (4 / 5) \<le> sin ?a"
    by (rule sin_monotone_2pi_le) (use half_fov_bounds up in simp_all)
  then have s: "71 / 100 \<le> sin ?a" using sin_four_fifths by linarith
  then have "(71 / 100)\<^sup>2 \<le> (sin ?a)\<^sup>2" by (intro power_mono) simp_all
  then have s2: "1 / 2 < (sin ?a)\<^sup>2" by (simp add: power2_eq_square)
  have "(cos ?a)\<^sup>2 = 1 - (sin ?a)\<^sup>2" by (simp add: cos_squared_eq)
  then have c2: "(cos ?a)\<^sup>2 < (sin ?a)\<^sup>2" using s2 by linarith
  have cp: "0 < cos ?a" by (rule cos_gt_zero_pi) (use half_fov_bounds up in simp_all)
  have "cos ?a < sin ?a" using c2 s by (intro power2_less_imp_less [of "cos ?a" "sin ?a"]) simp_all
  then show ?thesis using cp by (simp add: tan_def)
qed

lemma tan_46_degrees_lt_2: "tan (46 * pi / 180) < 2"
proof -
  have "tan (46 * pi / 180) < tan (pi / 3)"
    by (rule tan_monotone) simp_all
  also have "\<dots> = sqrt 3" by (rule tan_60)
  also have "\<dots> < sqrt 4" by (simp only: real_sqrt_less_iff)
  finally show ?thesis by simp
qed

lemma scaledRay_axis: "scaledRay f 1 (1 / 2) = VDiv (Vec 1 (f / 2) 0) (VNorm (Vec 1 (f / 2) 0))"
  by (simp add: scaledRay_def Let_def)

lemma scaledRay_axis_inj:
  assumes "scaledRay f 1 (1 / 2) = scaledRay g 1 (1 / 2)"
  shows "f = g"
proof -
  let ?n = "VNorm (Vec 1 (f / 2) 0)" and ?m = "VNorm (Vec 1 (g / 2) 0)"
  have n: "0 < ?n" "0 < ?m" by (rule VNorm_1uv_pos)+
  have e: "VDiv (Vec 1 (f / 2) 0) ?n = VDiv (Vec 1 (g / 2) 0) ?m"
    using assms by (simp only: scaledRay_axis)
  then have "GetX (VDiv (Vec 1 (f / 2) 0) ?n) = GetX (VDiv (Vec 1 (g / 2) 0) ?m)" by simp
  then have "1 / ?n = 1 / ?m" by (simp only: VDiv_def Vec_sel)
  then have nm: "?n = ?m" using n by (simp add: field_simps)
  from e have "GetY (VDiv (Vec 1 (f / 2) 0) ?n) = GetY (VDiv (Vec 1 (g / 2) 0) ?m)" by simp
  then have "f / 2 / ?n = g / 2 / ?m" by (simp only: VDiv_def Vec_sel)
  then show ?thesis using n nm by (simp add: field_simps)
qed

lemma coordBefRot_scaled:
  "coordBefRot vc = scaledRay (2 * maxHDist) (coord_x vc) (coord_y vc)"
  by (simp add: coordBefRot_def scaledRay_def Let_def maxHDist_value maxVDist_value)

text \<open>
  C1, as the code has it. For every viewport point \<open>(x, y)\<close> the ray before the rotation
  is the unit vector along \<open>(1, u, v)\<close>, where \<open>u\<close> is \<open>x - 0.5\<close> and \<open>v\<close> is
  \<open>0.5 - y\<close>, each scaled by \<open>2 * maxHDist = 4 * tan (fov / 2)\<close> for the field of view
  of 92 degrees (\<open>2 * maxVDist\<close> is the same number); the half angle is converted to
  radians with the single-precision constant \<open>PI\<close>.
\<close>

theorem coordBefRot_ray:
  "coordBefRot vc = scaledRay (2 * maxHDist) (coord_x vc) (coord_y vc) \<and>
   2 * maxHDist = 4 * tan (46 * PI / 180) \<and> 2 * maxVDist = 4 * tan (46 * PI / 180) \<and>
   VNorm (coordBefRot vc) = 1"
proof -
  have "VNorm (Vec 1 u v) \<noteq> 0" for u v
    using VNorm_1uv_pos [of u v] by simp
  then have "VNorm (coordBefRot vc) = 1"
    unfolding coordBefRot_def Let_def by (rule VNorm_VDiv_self)
  then show ?thesis
    by (simp add: coordBefRot_scaled maxHDist_value maxVDist_value)
qed

text \<open>
  C1 as stated, with the factor \<open>2 * tan (46 degrees)\<close>, fails at the viewport point
  \<open>(1, 0.5)\<close>, whether the 46 degrees are converted with pi or with the constant \<open>PI\<close>
  of the code: the code scales by twice that factor.
\<close>

theorem coordBefRot_ray_counterexample:
  "coordBefRot \<lparr>coord_x = 1, coord_y = 1 / 2\<rparr> \<noteq> scaledRay (2 * tan (46 * pi / 180)) 1 (1 / 2) \<and>
   coordBefRot \<lparr>coord_x = 1, coord_y = 1 / 2\<rparr> \<noteq> scaledRay (2 * tan (46 * PI / 180)) 1 (1 / 2)"
proof -
  have c: "coordBefRot \<lparr>coord_x = 1, coord_y = 1 / 2\<rparr> = scaledRay (4 * tan (46 * PI / 180)) 1 (1 / 2)"
    by (simp add: coordBefRot_scaled maxHDist_value)
  have "4 * tan (46 * PI / 180) \<noteq> 2 * tan (46 * pi / 180)"
    using tan_half_fov_gt_1 tan_46_degrees_lt_2 by linarith
  moreover have "4 * tan (46 * PI / 180) \<noteq> 2 * tan (46 * PI / 180)"
    using tan_half_fov_gt_1 by linarith
  ultimately show ?thesis
    unfolding c using scaledRay_axis_inj by blast
qed


end
